theory Spec2Isabelle
  imports Complex_Main "HOL-Library.Monad_Syntax"
begin

section \<open>Numeric arrays\<close>

text \<open>
  The scripts compute with numpy arrays and torch tensors of floating-point numbers.
  The embedding takes the entries as exact reals: rounding is not modelled.
  A failed Python operation (an \<^verbatim>\<open>IndexError\<close>, a shape mismatch) is the value
  \<open>None\<close>; a successful one is \<open>Some\<close> of its result.

  A one-dimensional array is a list. A three-dimensional array is its shape together
  with its entries by index; only the entries inside the shape are meaningful.
\<close>

record ndarray3 =
  shape0 :: nat
  shape1 :: nat
  shape2 :: nat
  item3 :: "nat \<Rightarrow> nat \<Rightarrow> nat \<Rightarrow> real"

text \<open>Python's index rule along an axis of length \<open>n\<close>: \<open>-n \<le> i < n\<close>, negative from the end.\<close>

definition py_index :: "nat \<Rightarrow> int \<Rightarrow> nat option" where
  "py_index n i =
     (if 0 \<le> i \<and> i < int n then Some (nat i)
      else if - int n \<le> i \<and> i < 0 then Some (nat (int n + i))
      else None)"

text \<open>\<^verbatim>\<open>x[i]\<close> on a one-dimensional array (or a row \<^verbatim>\<open>M[i,:]\<close> of a matrix given by its rows).\<close>

definition getitem :: "'a list \<Rightarrow> int \<Rightarrow> 'a option" where
  "getitem xs i = map_option (\<lambda>k. xs ! k) (py_index (length xs) i)"

text \<open>\<^verbatim>\<open>M[i, j]\<close> on a matrix given by its rows.\<close>

definition getitem2 :: "real list list \<Rightarrow> int \<Rightarrow> int \<Rightarrow> real option" where
  "getitem2 M i j =
     do { r \<leftarrow> py_index (length M) i;
          getitem (M ! r) j }"

text \<open>\<^verbatim>\<open>a[:, j, k]\<close>: the vector along the first axis.\<close>

definition column :: "ndarray3 \<Rightarrow> int \<Rightarrow> int \<Rightarrow> real list option" where
  "column a j k =
     do { j' \<leftarrow> py_index (shape1 a) j;
          k' \<leftarrow> py_index (shape2 a) k;
          Some (map (\<lambda>i. item3 a i j' k') [0..<shape0 a]) }"

text \<open>\<^verbatim>\<open>a[i, j, :]\<close>: the vector along the last axis.\<close>

definition row3 :: "ndarray3 \<Rightarrow> int \<Rightarrow> int \<Rightarrow> real list option" where
  "row3 a i j =
     do { i' \<leftarrow> py_index (shape0 a) i;
          j' \<leftarrow> py_index (shape1 a) j;
          Some (map (\<lambda>k. item3 a i' j' k) [0..<shape2 a]) }"

text \<open>
  Assignments. \<^verbatim>\<open>a[lo:hi] = v\<close> on a one-dimensional array (or on a column
  \<open>(n, 1)\<close>): the slice is clipped to the array, and \<open>v\<close> must have the slice's length
  or one element, which is then repeated; anything else is numpy's \<^verbatim>\<open>ValueError\<close>.
\<close>

definition set_slice :: "real list \<Rightarrow> nat \<Rightarrow> nat \<Rightarrow> real list \<Rightarrow> real list option" where
  "set_slice a lo hi v =
     (let lo' = min lo (length a); hi' = min hi (length a); n = hi' - lo' in
      if length v = n then Some (take lo' a @ v @ drop (lo' + n) a)
      else if length v = 1 then Some (take lo' a @ replicate n (hd v) @ drop (lo' + n) a)
      else None)"

text \<open>\<^verbatim>\<open>M[i, :] = v\<close> and \<^verbatim>\<open>M[i, j] = x\<close> on a matrix given by its rows.\<close>

definition set_row :: "real list list \<Rightarrow> int \<Rightarrow> real list \<Rightarrow> real list list option" where
  "set_row M i v =
     do { i' \<leftarrow> py_index (length M) i;
          r \<leftarrow> set_slice (M ! i') 0 (length (M ! i')) v;
          Some (M[i' := r]) }"

definition set_item2 :: "real list list \<Rightarrow> int \<Rightarrow> int \<Rightarrow> real \<Rightarrow> real list list option" where
  "set_item2 M i j x =
     do { i' \<leftarrow> py_index (length M) i;
          j' \<leftarrow> py_index (length (M ! i')) j;
          Some (M[i' := (M ! i')[j' := x]]) }"

text \<open>\<^verbatim>\<open>a[:, j, k] = v\<close> on a three-dimensional array.\<close>

definition set_column :: "ndarray3 \<Rightarrow> int \<Rightarrow> int \<Rightarrow> real list \<Rightarrow> ndarray3 option" where
  "set_column a j k v =
     do { j' \<leftarrow> py_index (shape1 a) j;
          k' \<leftarrow> py_index (shape2 a) k;
          w \<leftarrow> (if length v = shape0 a then Some v
                else if length v = 1 then Some (replicate (shape0 a) (hd v))
                else None);
          Some (a\<lparr>item3 := (\<lambda>i j'' k''.
                  if i < shape0 a \<and> j'' = j' \<and> k'' = k' then w ! i else item3 a i j'' k'')\<rparr>) }"

text \<open>\<^verbatim>\<open>np.zeros\<close>, and \<^verbatim>\<open>v.reshape(n)\<close> of a vector or a column.\<close>

definition zeros3 :: "nat \<Rightarrow> nat \<Rightarrow> nat \<Rightarrow> ndarray3" where
  "zeros3 d0 d1 d2 = \<lparr>shape0 = d0, shape1 = d1, shape2 = d2, item3 = (\<lambda>i j k. 0)\<rparr>"

definition zeros2 :: "nat \<Rightarrow> nat \<Rightarrow> real list list" where
  "zeros2 d0 d1 = replicate d0 (replicate d1 0)"

definition reshape_n :: "nat \<Rightarrow> real list \<Rightarrow> real list option" where
  "reshape_n n v = (if length v = n then Some v else None)"

text \<open>\<^verbatim>\<open>a.transpose(2, 1, 0)\<close>: the first and the last axis change places.\<close>

definition transpose_210 :: "ndarray3 \<Rightarrow> ndarray3" where
  "transpose_210 a =
     \<lparr>shape0 = shape2 a, shape1 = shape1 a, shape2 = shape0 a,
      item3 = (\<lambda>i j k. item3 a k j i)\<rparr>"

text \<open>Elementwise difference of two vectors of one length, and \<^verbatim>\<open>casadi.sumsqr\<close>.\<close>

definition vsub :: "real list \<Rightarrow> real list \<Rightarrow> real list" where
  "vsub u v = map2 (\<lambda>a b. a - b) u v"

definition sumsqr :: "real list \<Rightarrow> real" where
  "sumsqr v = sum_list (map (\<lambda>x. x\<^sup>2) v)"

section \<open>The inference script: constants\<close>

definition HORIZON :: nat where
  "HORIZON = 128"

text \<open>\<^verbatim>\<open>TARGET_POS\<close> is a \<open>(3, 1)\<close> array; its single column is kept.\<close>

definition TARGET_POS :: "real list" where
  "TARGET_POS = [3 / 10, 3 / 10, 1 / 2]"

definition SAMPLING_STEPS :: nat where
  "SAMPLING_STEPS = 200"

definition CONTROL_RATE :: nat where
  "CONTROL_RATE = 10"

text \<open>
  The weights \<^verbatim>\<open>Q = np.diag([10,10,10])\<close>, \<^verbatim>\<open>R = 0.5\<close> and
  \<^verbatim>\<open>P = np.diag([10,10,10])\<close>. (A one-letter constant would capture the variables
  of every later statement, so the names are longer than the source's.)
\<close>

definition Q_weight :: "real list list" where
  "Q_weight = [[10, 0, 0], [0, 10, 0], [0, 0, 10]]"

definition R_weight :: real where
  "R_weight = 1 / 2"

definition P_weight :: "real list list" where
  "P_weight = [[10, 0, 0], [0, 10, 0], [0, 0, 10]]"

section \<open>The cost of a sampled trajectory\<close>

text \<open>
  The expression
  \<^verbatim>\<open>W[0,0]*(x[0]-TARGET_POS[0])**2 + W[1,1]*(x[1]-TARGET_POS[1])**2 + W[2,2]*(x[2]-TARGET_POS[2])**2\<close>,
  which \<^verbatim>\<open>mpc_cost\<close> writes three times (with \<open>Q\<close>, \<open>Q\<close> and \<open>P\<close>).
\<close>

definition tracking_term :: "real list list \<Rightarrow> real list \<Rightarrow> real option" where
  "tracking_term W x =
     do { w0 \<leftarrow> getitem2 W 0 0; x0 \<leftarrow> getitem x 0;
          w1 \<leftarrow> getitem2 W 1 1; x1 \<leftarrow> getitem x 1;
          w2 \<leftarrow> getitem2 W 2 2; x2 \<leftarrow> getitem x 2;
          Some (w0 * (x0 - TARGET_POS ! 0)\<^sup>2 + w1 * (x1 - TARGET_POS ! 1)\<^sup>2
                + w2 * (x2 - TARGET_POS ! 2)\<^sup>2) }"

text \<open>
  The stage loop \<^verbatim>\<open>for i in range(predicted_controls.shape[1]-1)\<close>, over the list of
  its indices, with the running cost.
\<close>

fun stage_loop ::
  "ndarray3 \<Rightarrow> ndarray3 \<Rightarrow> real list list \<Rightarrow> real \<Rightarrow> nat list \<Rightarrow> real \<Rightarrow> real option" where
  "stage_loop ps pc Qm Rw [] cost = Some cost"
| "stage_loop ps pc Qm Rw (i # rest) cost =
     do { x_i \<leftarrow> column ps (int i + 1) 0;
          u_i_1 \<leftarrow> column pc (int i) 0;
          u_i \<leftarrow> column pc (int i + 1) 0;
          let delta_u = vsub u_i u_i_1;
          q \<leftarrow> tracking_term Qm x_i;
          stage_loop ps pc Qm Rw rest (cost + (q + Rw * sumsqr delta_u)) }"

text \<open>
  \<^verbatim>\<open>mpc_cost(predicted_states, predicted_controls, Q, R, P)\<close>. The range of the stage
  loop is empty when the controls have no or one step (\<open>shape1 - 1\<close> on naturals is \<open>0\<close>
  there, and Python's \<^verbatim>\<open>range(-1)\<close> is empty too).
\<close>

definition mpc_cost ::
  "ndarray3 \<Rightarrow> ndarray3 \<Rightarrow> real list list \<Rightarrow> real \<Rightarrow> real list list \<Rightarrow> real option" where
  "mpc_cost predicted_states predicted_controls Qm Rw Pm =
     do { let pc = transpose_210 predicted_controls;
          x_0 \<leftarrow> column predicted_states 0 0;
          c0 \<leftarrow> tracking_term Qm x_0;
          c1 \<leftarrow> stage_loop predicted_states pc Qm Rw [0..<shape1 pc - 1] c0;
          x_end \<leftarrow> column predicted_states (- 1) 0;
          t \<leftarrow> tracking_term Pm x_end;
          Some (c1 + t) }"

text \<open>The words of the specification: states, controls and weighted squared deviations.\<close>

definition state_at :: "ndarray3 \<Rightarrow> nat \<Rightarrow> real list" where
  "state_at ps k = [item3 ps 0 k 0, item3 ps 1 k 0, item3 ps 2 k 0]"

definition control_at :: "ndarray3 \<Rightarrow> nat \<Rightarrow> real list" where
  "control_at pc i = map (\<lambda>j. item3 pc 0 i j) [0..<7]"

definition weighted_sq_dev :: "real list list \<Rightarrow> real list \<Rightarrow> real list \<Rightarrow> real" where
  "weighted_sq_dev W x t = (\<Sum>c<3. W ! c ! c * (x ! c - t ! c)\<^sup>2)"

definition is_3x3 :: "real list list \<Rightarrow> bool" where
  "is_3x3 W = (length W = 3 \<and> length (W ! 0) = 3 \<and> length (W ! 1) = 3 \<and> length (W ! 2) = 3)"

section \<open>The physics simulator\<close>

text \<open>
  MuJoCo is outside the repository. Its data object is a record of the four arrays the
  script reads and writes: joint positions, joint velocities, the Cartesian positions of
  the bodies (one row of coordinates for each body) and the controls. Everything else the
  simulator keeps is the record's extension \<open>'z\<close>.
\<close>

record mjdata =
  qpos :: "real list"
  qvel :: "real list"
  xpos :: "real list list"
  ctrl :: "real list"

text \<open>
  What the scripts call from outside, as parameters of the model:
  \<^item> \<open>mj_step\<close>: \<^verbatim>\<open>mujoco.mj_step(model, data)\<close>, one step of the physics;
  \<^item> \<open>mj_jac\<close>: \<^verbatim>\<open>mujoco.mj_jac(model, data, jacp, jacr, point, body)\<close>, the entries it
    writes into the two Jacobians;
  \<^item> \<open>fresh_data\<close>: \<^verbatim>\<open>mujoco.MjData(mujoco.MjModel.from_xml_path(...))\<close> for the scene file;
  \<^item> \<open>sampler\<close>: the chain of unnormalised iterates of
    \<^verbatim>\<open>dataset.unnormalize_states(diffusion_sampling(...))\<close> at a tick, for a context;
  \<^item> \<open>timer\<close>: the wall-clock time the sampler took at a tick.
\<close>

record 'z externals =
  mj_step :: "'z mjdata_scheme \<Rightarrow> 'z mjdata_scheme"
  mj_jac :: "'z mjdata_scheme \<Rightarrow> real list \<Rightarrow> nat \<Rightarrow> (nat \<Rightarrow> nat \<Rightarrow> real) \<times> (nat \<Rightarrow> nat \<Rightarrow> real)"
  fresh_data :: "'z mjdata_scheme"
  sampler :: "nat \<Rightarrow> real list list \<Rightarrow> ndarray3 list"
  timer :: "nat \<Rightarrow> real"

text \<open>
  \<^verbatim>\<open>compute_jacobian(model, data, tpoint)\<close>: both Jacobians are allocated as
  \<open>3 \<times> nv\<close> arrays of zeros (\<open>nv\<close> is the length of \<open>qvel\<close>) and filled for body \<open>9\<close>.
\<close>

definition compute_jacobian ::
  "'z externals \<Rightarrow> 'z mjdata_scheme \<Rightarrow> real list \<Rightarrow> real list list \<times> real list list" where
  "compute_jacobian env d tpoint =
     (let nv = length (qvel d);
          body_id = 9;
          (fp, fr) = mj_jac env d tpoint body_id
      in (map (\<lambda>r. map (\<lambda>c. fp r c) [0..<nv]) [0..<3],
          map (\<lambda>r. map (\<lambda>c. fr r c) [0..<nv]) [0..<3]))"

text \<open>\<^verbatim>\<open>ca.mtimes(M, v)\<close> of a matrix and a column: the inner dimensions must agree.\<close>

definition mtimes :: "real list list \<Rightarrow> real list \<Rightarrow> real list option" where
  "mtimes M v =
     (if list_all (\<lambda>r. length r = length v) M
      then Some (map (\<lambda>r. sum_list (map2 (\<lambda>a b. a * b) r v)) M)
      else None)"

text \<open>
  \<^verbatim>\<open>state_loading(panda, data)\<close>. Columns \<open>(n, 1)\<close> are lists; the context, reshaped to
  \<open>(1, 20)\<close>, is a matrix of one row.
\<close>

definition state_loading ::
  "'z externals \<Rightarrow> 'z mjdata_scheme \<Rightarrow> (real list \<times> real list \<times> real list list) option" where
  "state_loading env d =
     do { let q_current = qpos d;
          let q_dot_current = qvel d;
          x_current \<leftarrow> getitem (xpos d) 9;
          let (jacp, jacr) = compute_jacobian env d TARGET_POS;
          let jacp = map (take 7) jacp;
          x_dot_current \<leftarrow> mtimes jacp (take 7 q_dot_current);
          let context_current = replicate 20 0;
          context_current \<leftarrow> set_slice context_current 0 7 (take 7 q_current);
          context_current \<leftarrow> set_slice context_current 7 14 (take 7 q_dot_current);
          context_current \<leftarrow> set_slice context_current 14 17 x_current;
          context_current \<leftarrow> set_slice context_current 17 20 x_dot_current;
          let q_current_pos = take 7 q_current;
          let x_current_pos = x_current;
          Some (q_current_pos, x_current_pos, [context_current]) }"

text \<open>The Cartesian velocity of the specification: the Jacobian's first 7 columns times the
  first 7 joint velocities.\<close>

definition hand_velocity :: "'z externals \<Rightarrow> 'z mjdata_scheme \<Rightarrow> real list" where
  "hand_velocity env d =
     map (\<lambda>r. \<Sum>c<7. fst (mj_jac env d TARGET_POS 9) r c * qvel d ! c) [0..<3]"

section \<open>The rollout of a sampled trajectory\<close>

text \<open>
  The loop \<^verbatim>\<open>for k in range(0, HORIZON)\<close> of \<^verbatim>\<open>diffusion_horizon_states\<close>, over the
  list of its indices, with the simulation and the array it fills.
\<close>

fun horizon_loop ::
  "'z externals \<Rightarrow> ndarray3 \<Rightarrow> nat list \<Rightarrow> 'z mjdata_scheme \<times> ndarray3 \<Rightarrow>
   ('z mjdata_scheme \<times> ndarray3) option" where
  "horizon_loop env inputs_final [] (data_cost, states) = Some (data_cost, states)"
| "horizon_loop env inputs_final (k # rest) (data_cost, states) =
     do { u \<leftarrow> row3 inputs_final 0 (int k);
          c \<leftarrow> set_slice (ctrl data_cost) 0 7 u;
          let data_cost = mj_step env (data_cost\<lparr>ctrl := c\<rparr>);
          x_current \<leftarrow> getitem (xpos data_cost) 9;
          x3 \<leftarrow> reshape_n 3 x_current;
          states \<leftarrow> set_column states (int k + 1) 0 x3;
          horizon_loop env inputs_final rest (data_cost, states) }"

text \<open>
  \<^verbatim>\<open>diffusion_horizon_states(x_current_pos, inputs_final, q_current_pos)\<close>. The first
  argument is not used by the source either.
\<close>

definition diffusion_horizon_states ::
  "'z externals \<Rightarrow> real list \<Rightarrow> ndarray3 \<Rightarrow> real list \<Rightarrow> ndarray3 option" where
  "diffusion_horizon_states env x_current_pos inputs_final q_current_pos =
     do { let data_cost = fresh_data env;
          q7 \<leftarrow> reshape_n 7 q_current_pos;
          qp \<leftarrow> set_slice (qpos data_cost) 0 7 q7;
          let data_cost = mj_step env (data_cost\<lparr>qpos := qp\<rparr>);
          let states = zeros3 3 (HORIZON + 1) 1;
          x_current \<leftarrow> getitem (xpos data_cost) 9;
          x3 \<leftarrow> reshape_n 3 x_current;
          states \<leftarrow> set_column states 0 0 x3;
          (data_cost, states) \<leftarrow> horizon_loop env inputs_final [0..<HORIZON] (data_cost, states);
          Some states }"

text \<open>
  The rollout in the words of the specification: the fresh simulation with the current
  joint positions, stepped once, and then one step for each control input in turn.
\<close>

fun rollout :: "'z externals \<Rightarrow> ndarray3 \<Rightarrow> real list \<Rightarrow> nat \<Rightarrow> 'z mjdata_scheme" where
  "rollout env inputs q 0 =
     mj_step env ((fresh_data env)\<lparr>qpos := q @ drop 7 (qpos (fresh_data env))\<rparr>)"
| "rollout env inputs q (Suc k) =
     (let d = rollout env inputs q k
      in mj_step env (d\<lparr>ctrl := control_at inputs k @ drop 7 (ctrl d)\<rparr>))"

text \<open>The array of the hand positions (body \<open>9\<close>) along the rollout, and the array
  after the entries \<open>a < j \<le> b\<close> of the rollout are written into it.\<close>

definition rollout_states :: "'z externals \<Rightarrow> ndarray3 \<Rightarrow> real list \<Rightarrow> ndarray3" where
  "rollout_states env inputs q =
     \<lparr>shape0 = 3, shape1 = HORIZON + 1, shape2 = 1,
      item3 = (\<lambda>i j k. if i < 3 \<and> j \<le> HORIZON \<and> k = 0
                          then xpos (rollout env inputs q j) ! 9 ! i else 0)\<rparr>"

definition fill_states ::
  "'z externals \<Rightarrow> ndarray3 \<Rightarrow> real list \<Rightarrow> nat \<Rightarrow> nat \<Rightarrow> ndarray3 \<Rightarrow> ndarray3" where
  "fill_states env inputs q a b states =
     states\<lparr>item3 := (\<lambda>i j k.
        if i < 3 \<and> a < j \<and> j \<le> b \<and> k = 0 then xpos (rollout env inputs q j) ! 9 ! i
        else item3 states i j k)\<rparr>"

text \<open>The dimensions of the robot the script relies on: at least 7 joints and 7 actuators,
  and a body \<open>9\<close> with three coordinates.\<close>

definition dims_ok :: "'z mjdata_scheme \<Rightarrow> bool" where
  "dims_ok d =
     (7 \<le> length (qpos d) \<and> 7 \<le> length (qvel d) \<and> 7 \<le> length (ctrl d)
      \<and> 9 < length (xpos d) \<and> length (xpos d ! 9) = 3)"

definition preserves_dims :: "('z mjdata_scheme \<Rightarrow> 'z mjdata_scheme) \<Rightarrow> bool" where
  "preserves_dims step = (\<forall>d. dims_ok d \<longrightarrow> dims_ok (step d))"

section \<open>The control loop\<close>

text \<open>
  The variables of \<^verbatim>\<open>main\<close> that the loop reads and writes: the simulation, the
  preallocated arrays (matrices given by their rows), and the tick counter.
\<close>

record 'z loop_state =
  data :: "'z mjdata_scheme"
  x_pos_memory :: "real list list"
  q_pos_memory :: "real list list"
  ctl_memory :: "real list list"
  abs_dis_memory :: "real list list"
  cost_memory :: "real list list"
  single_time_set :: "real list list"
  sampling_step :: nat

text \<open>\<^verbatim>\<open>np.linalg.norm(x - t)\<close> of two columns (a column of one entry is repeated).\<close>

definition norm_diff :: "real list \<Rightarrow> real list \<Rightarrow> real option" where
  "norm_diff x t =
     (if length x = length t then Some (sqrt (sumsqr (vsub x t)))
      else if length x = 1 then Some (sqrt (sumsqr (vsub (replicate (length t) (hd x)) t)))
      else None)"

text \<open>\<^verbatim>\<open>inputs_iters[-1]\<close>: the last iterate of the chain.\<close>

definition py_last :: "'a list \<Rightarrow> 'a option" where
  "py_last xs = getitem xs (- 1)"

text \<open>The body of \<^verbatim>\<open>if panda_step % CONTROL_RATE == 0:\<close>.\<close>

definition sampling_branch :: "'z externals \<Rightarrow> 'z loop_state \<Rightarrow> 'z loop_state option" where
  "sampling_branch env st =
     do { (q_current_pos, x_current_pos, context_current) \<leftarrow> state_loading env (data st);
          let x_current = context_current;
          q7 \<leftarrow> reshape_n 7 q_current_pos;
          q_mem \<leftarrow> set_row (q_pos_memory st) (int (sampling_step st)) q7;
          x3 \<leftarrow> reshape_n 3 x_current_pos;
          x_mem \<leftarrow> set_row (x_pos_memory st) (int (sampling_step st)) x3;
          dist \<leftarrow> norm_diff x_current_pos TARGET_POS;
          a_mem \<leftarrow> set_row (abs_dis_memory st) (int (sampling_step st)) [dist];
          let inputs_iters = sampler env (sampling_step st) x_current;
          let single_t = timer env (sampling_step st);
          t_mem \<leftarrow> set_item2 (single_time_set st) (int (sampling_step st)) 0 single_t;
          inputs_final \<leftarrow> py_last inputs_iters;
          diffusion_predicted_states \<leftarrow>
            diffusion_horizon_states env x_current_pos inputs_final q_current_pos;
          cost \<leftarrow> mpc_cost diffusion_predicted_states inputs_final Q_weight R_weight P_weight;
          c_mem \<leftarrow> set_item2 (cost_memory st) (int (sampling_step st)) 0 cost;
          applied_input_array \<leftarrow> row3 inputs_final 0 0;
          u_mem \<leftarrow> set_row (ctl_memory st) (int (sampling_step st)) applied_input_array;
          c \<leftarrow> set_slice (ctrl (data st)) 0 7 applied_input_array;
          Some (st\<lparr>data := (data st)\<lparr>ctrl := c\<rparr>,
                    x_pos_memory := x_mem, q_pos_memory := q_mem, ctl_memory := u_mem,
                    abs_dis_memory := a_mem, cost_memory := c_mem, single_time_set := t_mem,
                    sampling_step := sampling_step st + 1\<rparr>) }"

text \<open>One iteration of \<^verbatim>\<open>for panda_step in range(0, SAMPLING_STEPS*CONTROL_RATE)\<close>. The
  last iteration loads the state once more, to print it.\<close>

definition loop_body :: "'z externals \<Rightarrow> nat \<Rightarrow> 'z loop_state \<Rightarrow> 'z loop_state option" where
  "loop_body env panda_step st =
     do { st \<leftarrow> (if panda_step mod CONTROL_RATE = 0 then sampling_branch env st else Some st);
          let st = st\<lparr>data := mj_step env (data st)\<rparr>;
          _ \<leftarrow> (if panda_step = SAMPLING_STEPS * CONTROL_RATE - 1
                then map_option (\<lambda>_. ()) (state_loading env (data st)) else Some ());
          Some st }"

text \<open>A \<^verbatim>\<open>for\<close> loop over a list, stopping at the first failure.\<close>

fun for_loop :: "('i \<Rightarrow> 's \<Rightarrow> 's option) \<Rightarrow> 'i list \<Rightarrow> 's \<Rightarrow> 's option" where
  "for_loop body [] s = Some s"
| "for_loop body (i # rest) s = do { s' \<leftarrow> body i s; for_loop body rest s' }"

text \<open>\<^verbatim>\<open>main\<close> up to the loop: the arrays of zeros, and the simulation with its first 7
  joint positions set to \<^verbatim>\<open>ini_joint_states\<close> (zeros) and stepped once.\<close>

definition initial_state :: "'z externals \<Rightarrow> 'z loop_state option" where
  "initial_state env =
     do { let d = fresh_data env;
          let ini_joint_states = replicate 7 0;
          qp \<leftarrow> set_slice (qpos d) 0 7 ini_joint_states;
          let d = mj_step env (d\<lparr>qpos := qp\<rparr>);
          Some \<lparr>data = d,
                x_pos_memory = zeros2 SAMPLING_STEPS 3,
                q_pos_memory = zeros2 SAMPLING_STEPS 7,
                ctl_memory = zeros2 SAMPLING_STEPS 7,
                abs_dis_memory = zeros2 SAMPLING_STEPS 1,
                cost_memory = zeros2 SAMPLING_STEPS 1,
                single_time_set = zeros2 SAMPLING_STEPS 1,
                sampling_step = 0\<rparr> }"

definition panda_steps :: "nat list" where
  "panda_steps = [0..<SAMPLING_STEPS * CONTROL_RATE]"

definition control_loop :: "'z externals \<Rightarrow> 'z loop_state option" where
  "control_loop env = do { st \<leftarrow> initial_state env; for_loop (loop_body env) panda_steps st }"

text \<open>The state before iteration \<open>p\<close> of the loop.\<close>

definition state_before :: "'z externals \<Rightarrow> nat \<Rightarrow> 'z loop_state option" where
  "state_before env p = do { st \<leftarrow> initial_state env; for_loop (loop_body env) [0..<p] st }"

text \<open>
  What the loop needs of its surroundings. The preallocated arrays have
  \<open>SAMPLING_STEPS\<close> rows of their width; the simulator keeps the robot's dimensions; the
  last iterate of every sampled chain is a trajectory of shape \<open>(1, HORIZON, 7)\<close>.
\<close>

definition mem_ok :: "nat \<Rightarrow> real list list \<Rightarrow> bool" where
  "mem_ok w M = (length M = SAMPLING_STEPS \<and> list_all (\<lambda>r. length r = w) M)"

definition state_ok :: "'z loop_state \<Rightarrow> bool" where
  "state_ok st =
     (dims_ok (data st) \<and> mem_ok 3 (x_pos_memory st) \<and> mem_ok 7 (q_pos_memory st)
      \<and> mem_ok 7 (ctl_memory st) \<and> mem_ok 1 (abs_dis_memory st)
      \<and> mem_ok 1 (cost_memory st) \<and> mem_ok 1 (single_time_set st))"

definition trajectory_ok :: "ndarray3 \<Rightarrow> bool" where
  "trajectory_ok a = (shape0 a = 1 \<and> shape1 a = HORIZON \<and> shape2 a = 7)"

definition sampler_ok :: "(nat \<Rightarrow> real list list \<Rightarrow> ndarray3 list) \<Rightarrow> bool" where
  "sampler_ok smp = (\<forall>n c. smp n c \<noteq> [] \<and> trajectory_ok (last (smp n c)))"

definition env_ok :: "'z externals \<Rightarrow> bool" where
  "env_ok env =
     (preserves_dims (mj_step env) \<and> dims_ok (fresh_data env) \<and> sampler_ok (sampler env))"

text \<open>The context of a simulator state, and the final denoised trajectory sampled for it
  at a tick, in the words of the specification.\<close>

definition context_of :: "'z externals \<Rightarrow> 'z mjdata_scheme \<Rightarrow> real list list" where
  "context_of env d =
     [take 7 (qpos d) @ take 7 (qvel d) @ xpos d ! 9 @ hand_velocity env d]"

definition inputs_final_at :: "'z externals \<Rightarrow> nat \<Rightarrow> 'z mjdata_scheme \<Rightarrow> ndarray3" where
  "inputs_final_at env n d = last (sampler env n (context_of env d))"

text \<open>Writing a control vector of 7 entries to \<^verbatim>\<open>data.ctrl[:7]\<close>.\<close>

definition write_ctrl :: "real list \<Rightarrow> 'z mjdata_scheme \<Rightarrow> 'z mjdata_scheme" where
  "write_ctrl u d = d\<lparr>ctrl := u @ drop 7 (ctrl d)\<rparr>"

text \<open>
  The run of the loop in the words of the specification. \<open>sim_run env p\<close> is the
  simulation before iteration \<open>p\<close>: it starts from the fresh simulation with zero joint
  positions, stepped once; every iteration steps it once, after the first control input
  of the trajectory sampled for it is written at a tick. \<open>tick_data\<close> is the simulation at
  sampling tick \<open>s\<close>, and \<open>tick_cost\<close> the quadratic cost of the trajectory sampled there,
  over its rollout.
\<close>

fun sim_run :: "'z externals \<Rightarrow> nat \<Rightarrow> 'z mjdata_scheme" where
  "sim_run env 0 =
     mj_step env ((fresh_data env)\<lparr>qpos := replicate 7 0 @ drop 7 (qpos (fresh_data env))\<rparr>)"
| "sim_run env (Suc p) =
     (let d = sim_run env p
      in mj_step env
           (if p mod CONTROL_RATE = 0
            then write_ctrl (control_at (inputs_final_at env (p div CONTROL_RATE) d) 0) d
            else d))"

definition tick_data :: "'z externals \<Rightarrow> nat \<Rightarrow> 'z mjdata_scheme" where
  "tick_data env s = sim_run env (s * CONTROL_RATE)"

definition quadratic_cost :: "ndarray3 \<Rightarrow> ndarray3 \<Rightarrow> real" where
  "quadratic_cost ps pc =
     (\<Sum>k<HORIZON. weighted_sq_dev Q_weight (state_at ps k) TARGET_POS)
     + weighted_sq_dev P_weight (state_at ps HORIZON) TARGET_POS
     + (\<Sum>i<HORIZON - 1. R_weight * sumsqr (vsub (control_at pc (i + 1)) (control_at pc i)))"

definition tick_cost :: "'z externals \<Rightarrow> nat \<Rightarrow> real" where
  "tick_cost env s =
     (let d = tick_data env s;
          inputs_final = inputs_final_at env s d
      in quadratic_cost (rollout_states env inputs_final (take 7 (qpos d))) inputs_final)"

text \<open>The rows written so far hold the position of body \<open>9\<close>, the cost and the sampling
  time of their tick.\<close>

definition recorded :: "'z externals \<Rightarrow> 'z loop_state \<Rightarrow> bool" where
  "recorded env st =
     (\<forall>s<sampling_step st.
        x_pos_memory st ! s = xpos (tick_data env s) ! 9
        \<and> cost_memory st ! s = [tick_cost env s]
        \<and> single_time_set st ! s = [timer env s])"

section \<open>Saving the results\<close>

text \<open>
  The files \<^verbatim>\<open>np.save\<close> writes: an array or a single number. The file system is a map
  from paths to contents.
\<close>

datatype npy = NpyArray "real list list" | NpyScalar real

definition RESULTS_SAVED_PATH :: string where
  "RESULTS_SAVED_PATH =
     ''/root/cartpoleDiff/cart_pole_diffusion_based_on_MPD/model_performance_saving/Panda_test6_performance''"

text \<open>\<^verbatim>\<open>os.path.join(a, b)\<close> of two components.\<close>

definition path_join :: "string \<Rightarrow> string \<Rightarrow> string" where
  "path_join a b =
     (if b \<noteq> [] \<and> hd b = CHR ''/'' then b
      else if a = [] \<or> last a = CHR ''/'' then a @ b
      else a @ ''/'' @ b)"

definition figure_saving_path :: string where
  "figure_saving_path = path_join RESULTS_SAVED_PATH (''cost'' @ ''_collecting_sample_16'')"

definition x_trag_path :: string where
  "x_trag_path = path_join figure_saving_path (''x_trag'' @ ''.npy'')"

definition solving_time_path :: string where
  "solving_time_path = path_join figure_saving_path (''solving_time_diffusion_'' @ ''.npy'')"

definition single_time_path :: string where
  "single_time_path = path_join figure_saving_path (''single_time_diffusion_'' @ ''.npy'')"

definition cost_path :: string where
  "cost_path = path_join figure_saving_path (''cost_'' @ ''.npy'')"

text \<open>\<^verbatim>\<open>np.sum\<close> of a matrix: the sum of all its entries.\<close>

definition np_sum :: "real list list \<Rightarrow> real" where
  "np_sum M = sum_list (map sum_list M)"

text \<open>
  The four \<^verbatim>\<open>np.save\<close> calls after the loop, in their order;
  \<open>delta_t_problem_solving\<close> is the wall-clock time of the loop.
\<close>

definition save_results ::
  "'z loop_state \<Rightarrow> real \<Rightarrow> (string \<rightharpoonup> npy) \<Rightarrow> (string \<rightharpoonup> npy)" where
  "save_results st delta_t_problem_solving fs =
     (let fs = fs(x_trag_path \<mapsto> NpyArray (x_pos_memory st));
          fs = fs(solving_time_path \<mapsto> NpyScalar delta_t_problem_solving);
          fs = fs(single_time_path \<mapsto> NpyArray (single_time_set st));
          cost_sum = np_sum (cost_memory st);
          fs = fs(cost_path \<mapsto> NpyScalar cost_sum)
      in fs)"

text \<open>\<^verbatim>\<open>main\<close>: the loop, then the files. (The figures are not modelled.)\<close>

definition main ::
  "'z externals \<Rightarrow> real \<Rightarrow> (string \<rightharpoonup> npy) \<Rightarrow> ('z loop_state \<times> (string \<rightharpoonup> npy)) option" where
  "main env delta_t fs =
     do { st \<leftarrow> control_loop env;
          Some (st, save_results st delta_t fs) }"

section \<open>The training script: tensors and the network\<close>

text \<open>
  A torch tensor is its shape and its entries in row-major order. The operations below
  are the ones \<^verbatim>\<open>AMPCNet.forward\<close> uses; each fails as torch does.
\<close>

record tensor =
  tshape :: "nat list"
  tdata :: "real list"

text \<open>The number of vectors along the last axis: the rows of a batch.\<close>

definition rows_count :: "tensor \<Rightarrow> nat" where
  "rows_count x = prod_list (butlast (tshape x))"

text \<open>
  \<^verbatim>\<open>nn.Linear(in_features, out_features)\<close>: a weight matrix of \<open>out_features\<close> rows and a
  bias. Applied to a tensor it maps every vector along the last axis, which must have
  \<open>in_features\<close> entries.
\<close>

record linear =
  in_features :: nat
  out_features :: nat
  weight :: "real list list"
  bias :: "real list"

definition is_linear :: "nat \<Rightarrow> nat \<Rightarrow> linear \<Rightarrow> bool" where
  "is_linear n m L =
     (in_features L = n \<and> out_features L = m \<and> length (weight L) = m \<and> length (bias L) = m
      \<and> list_all (\<lambda>r. length r = n) (weight L))"

definition dot :: "real list \<Rightarrow> real list \<Rightarrow> real" where
  "dot u v = sum_list (map2 (\<lambda>a b. a * b) u v)"

definition linear_apply :: "linear \<Rightarrow> tensor \<Rightarrow> tensor option" where
  "linear_apply L x =
     (if tshape x \<noteq> [] \<and> last (tshape x) = in_features L
      then Some \<lparr>tshape = butlast (tshape x) @ [out_features L],
                 tdata = concat (map (\<lambda>i.
                     let v = take (in_features L) (drop (i * in_features L) (tdata x))
                     in map2 (\<lambda>w b. dot w v + b) (weight L) (bias L))
                   [0..<rows_count x])\<rparr>
      else None)"

definition tensor_tanh :: "tensor \<Rightarrow> tensor" where
  "tensor_tanh x = x\<lparr>tdata := map tanh (tdata x)\<rparr>"

text \<open>\<^verbatim>\<open>x.view(*ds)\<close>: the same entries under a shape of the same size.\<close>

definition view_as :: "tensor \<Rightarrow> nat list \<Rightarrow> tensor option" where
  "view_as x ds = (if prod_list ds = prod_list (tshape x) then Some (x\<lparr>tshape := ds\<rparr>) else None)"

text \<open>\<^verbatim>\<open>AMPCNet(input_size, output_size)\<close>: four linear layers of widths
  \<open>input_size \<rightarrow> 2 \<rightarrow> 50 \<rightarrow> 50 \<rightarrow> output_size\<close>, with any weights.\<close>

record AMPCNet =
  hidden1 :: linear
  hidden2 :: linear
  hidden3 :: linear
  output_layer :: linear

definition is_AMPCNet :: "nat \<Rightarrow> nat \<Rightarrow> AMPCNet \<Rightarrow> bool" where
  "is_AMPCNet input_size output_size net =
     (is_linear input_size 2 (hidden1 net) \<and> is_linear 2 50 (hidden2 net)
      \<and> is_linear 50 50 (hidden3 net) \<and> is_linear 50 output_size (output_layer net))"

text \<open>The module-level \<^verbatim>\<open>input_size = 4\<close> and \<^verbatim>\<open>output_size = 8\<close> of the model trained.\<close>

definition input_size :: nat where
  "input_size = 4"

definition output_size :: nat where
  "output_size = 8"

definition forward :: "AMPCNet \<Rightarrow> tensor \<Rightarrow> tensor option" where
  "forward net x =
     do { x \<leftarrow> linear_apply (hidden1 net) x;
          let x = tensor_tanh x;
          x \<leftarrow> linear_apply (hidden2 net) x;
          let x = tensor_tanh x;
          x \<leftarrow> linear_apply (hidden3 net) x;
          let x = tensor_tanh x;
          x \<leftarrow> linear_apply (output_layer net) x;
          view_as x [512, 8, 1] }"

section \<open>The training script: the moving average and the loop\<close>

text \<open>
  Arithmetic on two tensors follows torch's broadcasting. The shapes are aligned at
  their last axes; two sizes go together when they are equal or one of them is \<open>1\<close> (or
  missing), and the result takes the other size. Shapes that do not go together are
  torch's \<^verbatim>\<open>RuntimeError\<close>. \<open>broadcast_rev\<close> works on the reversed shapes.
\<close>

fun broadcast_rev :: "nat list \<Rightarrow> nat list \<Rightarrow> nat list option" where
  "broadcast_rev [] ys = Some ys"
| "broadcast_rev xs [] = Some xs"
| "broadcast_rev (x # xs) (y # ys) =
     (if x = y \<or> y = 1 then map_option (Cons x) (broadcast_rev xs ys)
      else if x = 1 then map_option (Cons y) (broadcast_rev xs ys)
      else None)"

definition broadcast_shapes :: "nat list \<Rightarrow> nat list \<Rightarrow> nat list option" where
  "broadcast_shapes a b = map_option rev (broadcast_rev (rev a) (rev b))"

text \<open>
  The index along every axis of the entry at position \<open>k\<close> of a row-major tensor, and
  the position of the entry with given indices.
\<close>

fun unravel :: "nat list \<Rightarrow> nat \<Rightarrow> nat list" where
  "unravel [] k = []"
| "unravel (d # ds) k = (k div prod_list ds) # unravel ds (k mod prod_list ds)"

fun ravel :: "nat list \<Rightarrow> nat list \<Rightarrow> nat" where
  "ravel (d # ds) (i # js) = i * prod_list ds + ravel ds js"
| "ravel ds js = 0"

text \<open>
  The entry at position \<open>k\<close> of a tensor expanded to the shape \<open>rs\<close>: the leading axes it
  does not have are dropped, and along an axis of size \<open>1\<close> its one entry is repeated.
\<close>

definition expand_get :: "tensor \<Rightarrow> nat list \<Rightarrow> nat \<Rightarrow> real" where
  "expand_get t rs k =
     (let idx = drop (length rs - length (tshape t)) (unravel rs k)
      in tdata t ! ravel (tshape t) (map2 (\<lambda>d i. if d = 1 then 0 else i) (tshape t) idx))"

definition tensor_map2 :: "(real \<Rightarrow> real \<Rightarrow> real) \<Rightarrow> tensor \<Rightarrow> tensor \<Rightarrow> tensor option" where
  "tensor_map2 f a b =
     (case broadcast_shapes (tshape a) (tshape b) of
        None \<Rightarrow> None
      | Some rs \<Rightarrow>
          Some \<lparr>tshape = rs,
                tdata = map (\<lambda>k. f (expand_get a rs k) (expand_get b rs k)) [0..<prod_list rs]\<rparr>)"

text \<open>
  \<^verbatim>\<open>EMA.update_average(old, new)\<close> with \<^verbatim>\<open>self.beta = beta\<close>: the tensor
  \<^verbatim>\<open>old * beta + (1 - beta) * new\<close>, or \<^verbatim>\<open>new\<close> when \<^verbatim>\<open>old is None\<close>.
\<close>

definition update_average :: "real \<Rightarrow> tensor option \<Rightarrow> tensor \<Rightarrow> tensor option" where
  "update_average beta old new =
     (case old of
        None \<Rightarrow> Some new
      | Some old \<Rightarrow> tensor_map2 (\<lambda>a b. a * beta + (1 - beta) * b) old new)"

text \<open>
  \<^verbatim>\<open>EMA.update_model_average(ema_model, current_model)\<close>, on the parameters of the two
  models: \<^verbatim>\<open>zip\<close> pairs them, every parameter of the averaged model that has a partner
  gets its new data, and the others stay. The result is the averaged model's parameters.
\<close>

fun update_model_average :: "real \<Rightarrow> tensor list \<Rightarrow> tensor list \<Rightarrow> tensor list option" where
  "update_model_average beta (ema_params # es) (current_params # cs) =
     do { w \<leftarrow> update_average beta (Some ema_params) current_params;
          rest \<leftarrow> update_model_average beta es cs;
          Some (w # rest) }"
| "update_model_average beta es cs = Some es"

text \<open>
  The two models of the training are the network and its deep copy: they have the same
  parameters, of the same shapes, and the optimizer changes the entries of a parameter in
  place. So the shapes are kept once, and a model is the list of the entries of each of
  its parameters, in row-major order.
\<close>

type_synonym params = "real list list"

definition tensors :: "nat list list \<Rightarrow> params \<Rightarrow> tensor list" where
  "tensors shapes entries = map2 (\<lambda>s d. \<lparr>tshape = s, tdata = d\<rparr>) shapes entries"

definition params_ok :: "nat list list \<Rightarrow> params \<Rightarrow> bool" where
  "params_ok shapes entries = list_all2 (\<lambda>s d. length d = prod_list s) shapes entries"

text \<open>The constants of the script.\<close>

definition ema_decay :: real where
  "ema_decay = 995 / 1000"

definition step_start_ema :: nat where
  "step_start_ema = 1000"

definition update_ema_every :: nat where
  "update_ema_every = 10"

definition steps_til_summary :: nat where
  "steps_til_summary = 2000"

definition steps_til_checkpoint :: "nat option" where
  "steps_til_checkpoint = Some 90000"

definition max_steps :: "nat option" where
  "max_steps = None"

definition stop_training :: bool where
  "stop_training = False"

definition epochs :: nat where
  "epochs = 300"

text \<open>
  What the loop calls from outside, as parameters of the model; \<open>'o\<close> is the state of
  the optimizer and the gradient scaler, \<open>'b\<close> a batch of the data loader.
  \<^item> \<open>optimise\<close>: the forward pass on a batch, the loss, the backward pass and the
    optimizer step, giving the new parameters; \<open>None\<close> when one of them raises (the
    forward pass does on a batch that is not of 512 rows);
  \<^item> \<open>summary_returns\<close>: at a step with a summary, whether the printing and the validation
    pass return (they change none of the variables modelled);
  \<^item> \<open>checkpoint_returns\<close>: whether saving the models and copying the directory return.
\<close>

record ('o, 'b) train_externals =
  optimise :: "'o \<times> params \<Rightarrow> 'b \<Rightarrow> ('o \<times> params) option"
  summary_returns :: "nat \<Rightarrow> params \<Rightarrow> bool"
  checkpoint_returns :: "nat \<Rightarrow> nat \<Rightarrow> bool"

record 'o train_state =
  param_shapes :: "nat list list"
  model_params :: params
  ema_model :: "params option"
  optim :: 'o
  train_steps_current :: nat

text \<open>
  The update of the averaged model, written twice in the script, in the loop and after
  it: below \<open>step_start_ema\<close> the averaged model first loads the state of the model, then
  \<^verbatim>\<open>ema.update_model_average(ema_model, model)\<close> runs.
\<close>

definition ema_update :: "nat \<Rightarrow> nat list list \<Rightarrow> params \<Rightarrow> params \<Rightarrow> params option" where
  "ema_update steps shapes ema current =
     (let ema = (if steps < step_start_ema then current else ema)
      in map_option (map tdata)
           (update_model_average ema_decay (tensors shapes ema) (tensors shapes current)))"

text \<open>The body of the inner loop after the \<^verbatim>\<open>break\<close> for the last batch.\<close>

definition train_step ::
  "('o, 'b) train_externals \<Rightarrow> nat \<Rightarrow> 'b \<Rightarrow> 'o train_state \<Rightarrow> 'o train_state option" where
  "train_step env epoch batch st =
     do { _ \<leftarrow> (if train_steps_current st mod steps_til_summary = 0
                 \<and> \<not> summary_returns env (train_steps_current st) (model_params st)
                then None else Some ());
          (opt, m) \<leftarrow> optimise env (optim st, model_params st) batch;
          ema \<leftarrow> (case ema_model st of
                    None \<Rightarrow> Some None
                  | Some e \<Rightarrow>
                      if train_steps_current st mod update_ema_every = 0
                      then map_option Some
                             (ema_update (train_steps_current st) (param_shapes st) e m)
                      else Some (Some e));
          let steps = train_steps_current st + 1;
          _ \<leftarrow> (case steps_til_checkpoint of
                  None \<Rightarrow> Some ()
                | Some c \<Rightarrow>
                    if steps mod c = 0 \<and> \<not> checkpoint_returns env epoch steps
                    then None else Some ());
          Some (st\<lparr>model_params := m, ema_model := ema, optim := opt,
                    train_steps_current := steps\<rparr>) }"

text \<open>
  \<^verbatim>\<open>for step, train_batch_dict in enumerate(train_dataloader)\<close>, over the enumerated
  batches; \<open>n\<close> is \<^verbatim>\<open>len(train_dataloader)\<close>. The two \<^verbatim>\<open>break\<close>s end the loop.
\<close>

fun batch_loop ::
  "('o, 'b) train_externals \<Rightarrow> nat \<Rightarrow> nat \<Rightarrow> (nat \<times> 'b) list \<Rightarrow> 'o train_state \<Rightarrow>
   'o train_state option" where
  "batch_loop env epoch n [] st = Some st"
| "batch_loop env epoch n ((step, batch) # rest) st =
     (if int step = int n - 1 then Some st
      else do { st' \<leftarrow> train_step env epoch batch st;
                if stop_training \<or> (max_steps \<noteq> None \<and> Some (train_steps_current st') = max_steps)
                then Some st'
                else batch_loop env epoch n rest st' })"

definition run_epoch ::
  "('o, 'b) train_externals \<Rightarrow> nat \<Rightarrow> 'b list \<Rightarrow> 'o train_state \<Rightarrow> 'o train_state option" where
  "run_epoch env epoch train_dataloader st =
     batch_loop env epoch (length train_dataloader)
       (zip [0..<length train_dataloader] train_dataloader) st"

text \<open>\<^verbatim>\<open>for epoch in range(epochs)\<close>; the data loader gives the batches of each epoch.\<close>

fun epoch_loop ::
  "('o, 'b) train_externals \<Rightarrow> (nat \<Rightarrow> 'b list) \<Rightarrow> nat list \<Rightarrow> 'o train_state \<Rightarrow>
   'o train_state option" where
  "epoch_loop env train_dataloader [] st = Some st"
| "epoch_loop env train_dataloader (epoch # rest) st =
     do { st' \<leftarrow> run_epoch env epoch (train_dataloader epoch) st;
          if max_steps \<noteq> None \<and> Some (train_steps_current st') = max_steps
          then Some st'
          else epoch_loop env train_dataloader rest st' }"

text \<open>The whole training: the models are saved once before it, then come the epochs,
  the last update of the averaged model, and the last checkpoint.\<close>

definition training ::
  "('o, 'b) train_externals \<Rightarrow> (nat \<Rightarrow> 'b list) \<Rightarrow> 'o train_state \<Rightarrow> 'o train_state option" where
  "training env train_dataloader st0 =
     do { _ \<leftarrow> (if checkpoint_returns env 0 0 then Some () else None);
          st \<leftarrow> epoch_loop env train_dataloader [0..<epochs] st0;
          ema \<leftarrow> (case ema_model st of
                    None \<Rightarrow> Some None
                  | Some e \<Rightarrow>
                      map_option Some
                        (ema_update (train_steps_current st) (param_shapes st) e (model_params st)));
          _ \<leftarrow> (if checkpoint_returns env (epochs - 1) (train_steps_current st)
                then Some () else None);
          Some (st\<lparr>ema_model := ema\<rparr>) }"

text \<open>Surroundings in which nothing raises.\<close>

definition never_fails :: "('o, 'b) train_externals \<Rightarrow> bool" where
  "never_fails env =
     ((\<forall>s b. optimise env s b \<noteq> None) \<and> (\<forall>n p. summary_returns env n p)
      \<and> (\<forall>e n. checkpoint_returns env e n))"

text \<open>
  The words of the specification. The rule of the moving average, entry by entry; the
  batches the training processes, each with its epoch, in their order; and an optimizer
  that keeps the number of entries of every parameter.
\<close>

definition average_rule :: "real \<Rightarrow> params \<Rightarrow> params \<Rightarrow> params" where
  "average_rule beta ema current =
     map2 (\<lambda>old new. map2 (\<lambda>a b. a * beta + (1 - beta) * b) old new) ema current"

definition processed :: "(nat \<Rightarrow> 'b list) \<Rightarrow> (nat \<times> 'b) list" where
  "processed train_dataloader =
     concat (map (\<lambda>epoch. map (Pair epoch) (butlast (train_dataloader epoch))) [0..<epochs])"

definition keeps_lengths :: "('o, 'b) train_externals \<Rightarrow> bool" where
  "keeps_lengths env =
     (\<forall>s b s'. optimise env s b = Some s' \<longrightarrow>
        list_all2 (\<lambda>d d'. length d = length d') (snd s) (snd s'))"

text \<open>A training state in which both models have the entries their shapes ask for.\<close>

definition state_form :: "'o train_state \<Rightarrow> bool" where
  "state_form st =
     (params_ok (param_shapes st) (model_params st)
      \<and> (case ema_model st of None \<Rightarrow> False | Some e \<Rightarrow> params_ok (param_shapes st) e))"

section \<open>Example inputs\<close>

text \<open>Concrete arrays on which the theorems below are instantiated.\<close>

definition zero_states :: ndarray3 where
  "zero_states = \<lparr>shape0 = 3, shape1 = 129, shape2 = 1, item3 = (\<lambda>i j k. 0)\<rparr>"

definition ramp_controls :: ndarray3 where
  "ramp_controls = \<lparr>shape0 = 1, shape1 = 128, shape2 = 7, item3 = (\<lambda>i j k. real j)\<rparr>"

definition far_states :: ndarray3 where
  "far_states = \<lparr>shape0 = 3, shape1 = 3, shape2 = 1, item3 = (\<lambda>i j k. - real j)\<rparr>"

definition two_controls :: ndarray3 where
  "two_controls = \<lparr>shape0 = 1, shape1 = 2, shape2 = 7, item3 = (\<lambda>i j k. real j * real k)\<rparr>"


text \<open>
  A toy simulator with the robot's dimensions (9 joints, 8 actuators, 11 bodies): a step
  adds a tenth of each control to its joint position, the velocities become the
  controls, and body \<open>9\<close> sits at the first three joint positions. Its Jacobian is the
  identity on the first three joints. The toy sampler returns a chain of two iterates;
  the last one has the entry \<open>n + j + k\<close> at step \<open>j\<close>, joint \<open>k\<close>, for tick \<open>n\<close>.
\<close>

definition toy_step :: "mjdata \<Rightarrow> mjdata" where
  "toy_step d =
     (let q = map2 (\<lambda>a b. a + b / 10) (qpos d) (ctrl d) @ drop (length (ctrl d)) (qpos d)
      in d\<lparr>qpos := q, qvel := ctrl d @ drop (length (ctrl d)) (qvel d),
            xpos := (xpos d)[9 := take 3 q]\<rparr>)"

definition toy_jac :: "mjdata \<Rightarrow> real list \<Rightarrow> nat \<Rightarrow> (nat \<Rightarrow> nat \<Rightarrow> real) \<times> (nat \<Rightarrow> nat \<Rightarrow> real)" where
  "toy_jac d tpoint body = ((\<lambda>r c. if r = c then 1 else 0), (\<lambda>r c. 0))"

definition toy_fresh :: mjdata where
  "toy_fresh = \<lparr>qpos = replicate 9 0, qvel = replicate 9 0,
                  xpos = replicate 11 [0, 0, 0], ctrl = replicate 8 0\<rparr>"

definition toy_trajectory :: "nat \<Rightarrow> ndarray3" where
  "toy_trajectory n =
     \<lparr>shape0 = 1, shape1 = 128, shape2 = 7, item3 = (\<lambda>i j k. real (n + j + k))\<rparr>"

definition toy_sampler :: "nat \<Rightarrow> real list list \<Rightarrow> ndarray3 list" where
  "toy_sampler n c = [zeros3 1 128 7, toy_trajectory n]"

definition toy_env :: "unit externals" where
  "toy_env = \<lparr>mj_step = toy_step, mj_jac = toy_jac, fresh_data = toy_fresh,
                sampler = toy_sampler, timer = (\<lambda>n. 1 / 100)\<rparr>"

definition toy_data :: mjdata where
  "toy_data = \<lparr>qpos = [1, 2, 3, 4, 5, 6, 7, 8, 9], qvel = [1, 0, 2, 0, 3, 0, 4, 0, 5],
                 xpos = replicate 9 [0, 0, 0] @ [[3 / 10, 3 / 10, 1 / 2], [1, 1, 1]],
                 ctrl = replicate 8 0\<rparr>"

text \<open>A final state of the loop whose costs were all \<open>1\<close>.\<close>

definition ones_final :: "unit loop_state" where
  "ones_final =
     \<lparr>data = toy_fresh,
      x_pos_memory = replicate 200 [3 / 10, 3 / 10, 1 / 2],
      q_pos_memory = zeros2 200 7,
      ctl_memory = zeros2 200 7,
      abs_dis_memory = zeros2 200 1,
      cost_memory = replicate 200 [1],
      single_time_set = replicate 200 [1 / 100],
      sampling_step = 200\<rparr>"

text \<open>A network of the trained widths with constant weights, and two batches of 4
  features: one of 512 rows and one of 100.\<close>

definition const_linear :: "nat \<Rightarrow> nat \<Rightarrow> real \<Rightarrow> real \<Rightarrow> linear" where
  "const_linear n m w b =
     \<lparr>in_features = n, out_features = m, weight = replicate m (replicate n w),
      bias = replicate m b\<rparr>"

definition toy_net :: AMPCNet where
  "toy_net = \<lparr>hidden1 = const_linear 4 2 (1 / 2) 0, hidden2 = const_linear 2 50 (1 / 10) 1,
                hidden3 = const_linear 50 50 (- 1 / 50) 0,
                output_layer = const_linear 50 8 (1 / 5) (1 / 2)\<rparr>"

definition batch_512 :: tensor where
  "batch_512 = \<lparr>tshape = [512, 4], tdata = replicate 2048 1\<rparr>"

definition batch_100 :: tensor where
  "batch_100 = \<lparr>tshape = [100, 4], tdata = replicate 400 1\<rparr>"

text \<open>
  A toy optimizer: a batch is a number, a step subtracts a tenth of it from every
  parameter, and the optimizer counts its steps. Two training states of a network with
  a weight of shape \<open>(1, 2)\<close> and a bias of shape \<open>(1)\<close>: the start, and a state after the
  warm-up of the averaged model. Two tensors of different shapes.
\<close>

definition toy_train_env :: "(nat, real) train_externals" where
  "toy_train_env =
     \<lparr>optimise = (\<lambda>(opt, m) b. Some (opt + 1, map (map (\<lambda>w. w - b / 10)) m)),
      summary_returns = (\<lambda>n p. True), checkpoint_returns = (\<lambda>e n. True)\<rparr>"

definition toy_start :: "nat train_state" where
  "toy_start = \<lparr>param_shapes = [[1, 2], [1]], model_params = [[1, 2], [3]],
                  ema_model = Some [[1, 2], [3]], optim = 0, train_steps_current = 0\<rparr>"

definition toy_later :: "nat train_state" where
  "toy_later = \<lparr>param_shapes = [[1, 2], [1]], model_params = [[1, 2], [3]],
                  ema_model = Some [[0, 0], [0]], optim = 1000, train_steps_current = 1000\<rparr>"

definition tensor_2 :: tensor where
  "tensor_2 = \<lparr>tshape = [2], tdata = [2, 4]\<rparr>"

definition tensor_1 :: tensor where
  "tensor_1 = \<lparr>tshape = [1], tdata = [4]\<rparr>"

definition tensor_3 :: tensor where
  "tensor_3 = \<lparr>tshape = [3], tdata = [1, 2, 3]\<rparr>"

definition tensor_2x1 :: tensor where
  "tensor_2x1 = \<lparr>tshape = [2, 1], tdata = [10, 20]\<rparr>"

definition tensor_2b :: tensor where
  "tensor_2b = \<lparr>tshape = [2], tdata = [4, 8]\<rparr>"
section \<open>Properties of the cost\<close>

lemma py_index_nat: "k < n \<Longrightarrow> py_index n (int k) = Some k"
  by (simp add: py_index_def)

lemma py_index_Suc: "Suc k < n \<Longrightarrow> py_index n (int k + 1) = Some (Suc k)"
  using py_index_nat [of "Suc k" n] by (simp add: add.commute)

lemma py_index_last: "0 < n \<Longrightarrow> py_index n (- 1) = Some (n - 1)"
  by (auto simp: py_index_def nat_diff_distrib' int_ops)

lemma column_nat:
  "j < shape1 a \<Longrightarrow> k < shape2 a \<Longrightarrow>
   column a (int j) (int k) = Some (map (\<lambda>i. item3 a i j k) [0..<shape0 a])"
  by (simp add: column_def py_index_nat)

lemma getitem_nat: "k < length xs \<Longrightarrow> getitem xs (int k) = Some (xs ! k)"
  by (simp add: getitem_def py_index_nat)

lemma getitem2_nat:
  "i < length M \<Longrightarrow> j < length (M ! i) \<Longrightarrow> getitem2 M (int i) (int j) = Some (M ! i ! j)"
  by (simp add: getitem2_def py_index_nat getitem_nat)

lemma tracking_term_3:
  assumes "is_3x3 W" "length x = 3"
  shows "tracking_term W x = Some (weighted_sq_dev W x TARGET_POS)"
proof -
  have g: "getitem2 W 0 0 = Some (W ! 0 ! 0)" "getitem2 W 1 1 = Some (W ! 1 ! 1)"
    "getitem2 W 2 2 = Some (W ! 2 ! 2)"
    using assms(1) getitem2_nat [of 0 W 0] getitem2_nat [of 1 W 1] getitem2_nat [of 2 W 2]
    by (simp_all add: is_3x3_def)
  have x: "getitem x 0 = Some (x ! 0)" "getitem x 1 = Some (x ! 1)" "getitem x 2 = Some (x ! 2)"
    using assms(2) getitem_nat [of 0 x] getitem_nat [of 1 x] getitem_nat [of 2 x]
    by simp_all
  have s: "(\<Sum>c<3. f c) = f 0 + f 1 + (f 2 :: real)" for f :: "nat \<Rightarrow> real"
    by (simp add: eval_nat_numeral lessThan_Suc)
  show ?thesis
    by (simp add: tracking_term_def g x weighted_sq_dev_def s)
qed

lemma column_state:
  assumes "shape0 ps = 3" "k < shape1 ps" "shape2 ps = 1"
  shows "column ps (int k) 0 = Some (state_at ps k)"
  using column_nat [of k ps 0] assms
  by (simp add: state_at_def upt_rec eval_nat_numeral)

lemma column_control:
  assumes "shape0 pc = 1" "i < shape1 pc" "shape2 pc = 7"
  shows "column (transpose_210 pc) (int i) 0 = Some (control_at pc i)"
  using column_nat [of i "transpose_210 pc" 0] assms
  by (simp add: transpose_210_def control_at_def)

lemma stage_loop_sum:
  assumes "is_3x3 Qm" "shape0 ps = 3" "shape2 ps = 1" "shape0 pc = 1" "shape2 pc = 7"
    and "\<forall>i\<in>set js. Suc i < shape1 ps \<and> Suc i < shape1 pc"
  shows "stage_loop ps (transpose_210 pc) Qm Rw js c =
     Some (c + (\<Sum>i\<leftarrow>js. weighted_sq_dev Qm (state_at ps (Suc i)) TARGET_POS
              + Rw * sumsqr (vsub (control_at pc (Suc i)) (control_at pc i))))"
  using assms(6)
proof (induction js arbitrary: c)
  case Nil
  then show ?case by simp
next
  case (Cons i js)
  have a: "column ps (int i + 1) 0 = Some (state_at ps (Suc i))"
    using column_state [of ps "Suc i"] assms Cons.prems by (simp add: add.commute)
  have b: "column (transpose_210 pc) (int i) 0 = Some (control_at pc i)"
    using column_control [of pc i] assms Cons.prems by simp
  have c: "column (transpose_210 pc) (int i + 1) 0 = Some (control_at pc (Suc i))"
    using column_control [of pc "Suc i"] assms Cons.prems by (simp add: add.commute)
  have d: "tracking_term Qm (state_at ps (Suc i)) =
      Some (weighted_sq_dev Qm (state_at ps (Suc i)) TARGET_POS)"
    by (rule tracking_term_3) (simp_all add: assms state_at_def)
  show ?case
    using Cons.IH Cons.prems by (simp add: a b c d add.assoc)
qed

lemma column_last:
  assumes "shape0 ps = 3" "shape1 ps = Suc n" "shape2 ps = 1"
  shows "column ps (- 1) 0 = Some (state_at ps n)"
proof -
  have "py_index (shape1 ps) (- 1) = Some n"
    using py_index_last [of "shape1 ps"] assms by simp
  moreover have "py_index (shape2 ps) 0 = Some 0"
    using py_index_nat [of 0 "shape2 ps"] assms by simp
  ultimately show ?thesis
    using assms by (simp add: column_def state_at_def upt_rec eval_nat_numeral)
qed

lemma mpc_cost_general:
  assumes W: "is_3x3 Qm" "is_3x3 Pm"
    and ps: "shape0 ps = 3" "shape1 ps = Suc (Suc m)" "shape2 ps = 1"
    and pc: "shape0 pc = 1" "shape1 pc = Suc m" "shape2 pc = 7"
  shows "mpc_cost ps pc Qm Rw Pm = Some (
      (\<Sum>k<Suc m. weighted_sq_dev Qm (state_at ps k) TARGET_POS)
    + weighted_sq_dev Pm (state_at ps (Suc m)) TARGET_POS
    + (\<Sum>i<m. Rw * sumsqr (vsub (control_at pc (Suc i)) (control_at pc i))))"
proof -
  let ?q = "\<lambda>k. weighted_sq_dev Qm (state_at ps k) TARGET_POS"
  let ?r = "\<lambda>i. Rw * sumsqr (vsub (control_at pc (Suc i)) (control_at pc i))"
  have x0: "column ps 0 0 = Some (state_at ps 0)"
    using column_state [of ps 0] ps by simp
  have t0: "tracking_term Qm (state_at ps 0) = Some (?q 0)"
    by (rule tracking_term_3) (simp_all add: W state_at_def)
  have loop: "stage_loop ps (transpose_210 pc) Qm Rw [0..<m] (?q 0) =
      Some (?q 0 + (\<Sum>i\<leftarrow>[0..<m]. ?q (Suc i) + ?r i))"
    by (rule stage_loop_sum) (simp_all add: W ps pc)
  have xe: "column ps (- 1) 0 = Some (state_at ps (Suc m))"
    by (rule column_last) (simp_all add: ps)
  have te: "tracking_term Pm (state_at ps (Suc m)) =
      Some (weighted_sq_dev Pm (state_at ps (Suc m)) TARGET_POS)"
    by (rule tracking_term_3) (simp_all add: W state_at_def)
  have n: "shape1 (transpose_210 pc) - Suc 0 = m"
    by (simp add: transpose_210_def pc)
  have s: "(\<Sum>i\<leftarrow>[0..<m]. ?q (Suc i) + ?r i) = (\<Sum>i<m. ?q (Suc i)) + (\<Sum>i<m. ?r i)"
    by (simp add: interv_sum_list_conv_sum_set_nat sum.distrib atLeast0LessThan)
  have sh: "(\<Sum>k<Suc m. ?q k) = ?q 0 + (\<Sum>i<m. ?q (Suc i))"
    by (rule sum.lessThan_Suc_shift)
  have "mpc_cost ps pc Qm Rw Pm =
      Some (?q 0 + (\<Sum>i\<leftarrow>[0..<m]. ?q (Suc i) + ?r i)
            + weighted_sq_dev Pm (state_at ps (Suc m)) TARGET_POS)"
    by (simp add: mpc_cost_def Let_def x0 t0 n loop xe te)
  then show ?thesis
    by (simp only: s sh) (simp add: algebra_simps)
qed

lemma weights_3x3: "is_3x3 Q_weight" "is_3x3 P_weight"
  by (simp_all add: is_3x3_def Q_weight_def P_weight_def)

text \<open>
  \<^bold>\<open>C1.\<close> The cost is quadratic. For every predicted-state array of shape
  \<open>(3, HORIZON+1, 1)\<close> and every control array of shape \<open>(1, HORIZON, 7)\<close>,
  \<open>mpc_cost\<close> returns, and its value is the sum of the \<open>Q\<close>-weighted squared deviations
  from \<open>TARGET_POS\<close> of the states \<open>x\<^sub>0 \<dots> x\<^bsub>HORIZON-1\<^esub>\<close>, plus the \<open>P\<close>-weighted squared
  deviation of the last state \<open>x\<^bsub>HORIZON\<^esub>\<close>, plus \<open>R\<close> times the squared norm of every
  difference \<open>u\<^bsub>i+1\<^esub> - u\<^sub>i\<close> of consecutive controls, \<open>i = 0 \<dots> HORIZON-2\<close>. The controls
  themselves are not penalised.
\<close>

theorem mpc_cost_quadratic:
  assumes "shape0 ps = 3" "shape1 ps = HORIZON + 1" "shape2 ps = 1"
    and "shape0 pc = 1" "shape1 pc = HORIZON" "shape2 pc = 7"
  shows "mpc_cost ps pc Q_weight R_weight P_weight = Some (
      (\<Sum>k<HORIZON. weighted_sq_dev Q_weight (state_at ps k) TARGET_POS)
    + weighted_sq_dev P_weight (state_at ps HORIZON) TARGET_POS
    + (\<Sum>i<HORIZON - 1.
         R_weight * sumsqr (vsub (control_at pc (i + 1)) (control_at pc i))))"
proof -
  have H: "HORIZON = Suc 127"
    by (simp add: HORIZON_def)
  show ?thesis
    using mpc_cost_general [of Q_weight P_weight ps 127 pc R_weight] assms weights_3x3
    by (simp add: H)
qed

text \<open>At the origin with a ramp of controls the cost is \<open>999.2\<close>.\<close>

lemma sumsqr_ramp:
  "sumsqr (vsub (control_at ramp_controls (Suc i)) (control_at ramp_controls i)) = 7"
  by (simp add: sumsqr_def vsub_def control_at_def ramp_controls_def upt_rec)

lemma dev_zero: "weighted_sq_dev Q_weight (state_at zero_states k) TARGET_POS = 43 / 10"
  "weighted_sq_dev P_weight (state_at zero_states k) TARGET_POS = 43 / 10"
  by (simp_all add: weighted_sq_dev_def state_at_def zero_states_def TARGET_POS_def
      Q_weight_def P_weight_def eval_nat_numeral lessThan_Suc power2_eq_square)

theorem mpc_cost_quadratic_witness:
  "shape0 zero_states = 3 \<and> shape1 zero_states = HORIZON + 1 \<and> shape2 zero_states = 1
   \<and> shape0 ramp_controls = 1 \<and> shape1 ramp_controls = HORIZON \<and> shape2 ramp_controls = 7
   \<and> mpc_cost zero_states ramp_controls Q_weight R_weight P_weight = Some (9992 / 10)"
proof -
  have s: "shape0 zero_states = 3" "shape1 zero_states = HORIZON + 1" "shape2 zero_states = 1"
    "shape0 ramp_controls = 1" "shape1 ramp_controls = HORIZON" "shape2 ramp_controls = 7"
    by (simp_all add: zero_states_def ramp_controls_def HORIZON_def)
  show ?thesis
    using mpc_cost_quadratic [OF s] s
    by (simp add: sumsqr_ramp dev_zero R_weight_def HORIZON_def)
qed

lemma getitem2_weights:
  "getitem2 Q_weight 0 0 = Some 10" "getitem2 Q_weight 1 1 = Some 10"
  "getitem2 Q_weight 2 2 = Some 10"
  by (simp_all add: getitem2_def getitem_def py_index_def Q_weight_def)

lemma tracking_term_nonneg:
  assumes "tracking_term Q_weight x = Some q"
  shows "0 \<le> q"
proof -
  from assms obtain x0 x1 x2 where
    "q = 10 * (x0 - TARGET_POS ! 0)\<^sup>2 + 10 * (x1 - TARGET_POS ! 1)\<^sup>2
         + 10 * (x2 - TARGET_POS ! 2)\<^sup>2"
    by (auto simp: tracking_term_def getitem2_weights split: bind_splits)
  then show ?thesis by simp
qed

lemma sumsqr_nonneg: "0 \<le> sumsqr v"
  by (auto simp: sumsqr_def intro!: sum_list_nonneg)

lemma stage_loop_nonneg:
  "stage_loop ps pc Q_weight R_weight js c = Some r \<Longrightarrow> 0 \<le> c \<Longrightarrow> 0 \<le> r"
proof (induction js arbitrary: c)
  case Nil
  then show ?case by simp
next
  case (Cons i js)
  from Cons.prems(1) obtain x_i u_i_1 u_i q where
    q: "tracking_term Q_weight x_i = Some q"
    and r: "stage_loop ps pc Q_weight R_weight js
              (c + (q + R_weight * sumsqr (vsub u_i u_i_1))) = Some r"
    by (auto simp: Let_def split: bind_splits)
  have "0 \<le> c + (q + R_weight * sumsqr (vsub u_i u_i_1))"
    using tracking_term_nonneg [OF q] Cons.prems(2) sumsqr_nonneg [of "vsub u_i u_i_1"]
    by (simp add: R_weight_def)
  with Cons.IH r show ?case by blast
qed

text \<open>
  \<^bold>\<open>C10.\<close> With the configured weights \<open>Q = diag(10,10,10)\<close>, \<open>R = 0.5\<close> and
  \<open>P = diag(10,10,10)\<close>, whatever \<open>mpc_cost\<close> returns is nonnegative, for arrays of every
  shape and content (over the reals): every term is a nonnegative weight times a square.
  That it does return on the arrays of the control loop is part of C1.
\<close>

theorem mpc_cost_nonneg:
  assumes "mpc_cost ps pc Q_weight R_weight P_weight = Some c"
  shows "0 \<le> c"
proof -
  from assms obtain x_0 c0 c1 x_end t where
    c0: "tracking_term Q_weight x_0 = Some c0"
    and c1: "stage_loop ps (transpose_210 pc) Q_weight R_weight
               [0..<shape1 (transpose_210 pc) - 1] c0 = Some c1"
    and t: "tracking_term P_weight x_end = Some t"
    and c: "c = c1 + t"
    by (auto simp: mpc_cost_def Let_def split: bind_splits)
  have "0 \<le> c1"
    using stage_loop_nonneg [OF c1] tracking_term_nonneg [OF c0] by simp
  moreover have "0 \<le> t"
    using tracking_term_nonneg [of x_end t] t by (simp add: P_weight_def Q_weight_def)
  ultimately show ?thesis
    using c by simp
qed

lemma mpc_cost_far: "mpc_cost far_states two_controls Q_weight R_weight P_weight = Some (1372 / 5)"
  by (simp add: mpc_cost_def transpose_210_def far_states_def two_controls_def column_def py_index_def
        tracking_term_def getitem2_def getitem_def Q_weight_def P_weight_def R_weight_def
        TARGET_POS_def vsub_def sumsqr_def upt_rec power2_eq_square)

theorem mpc_cost_nonneg_witness:
  "mpc_cost far_states two_controls Q_weight R_weight P_weight = Some (1372 / 5)
   \<and> (0::real) \<le> 1372 / 5"
  using mpc_cost_nonneg [OF mpc_cost_far] mpc_cost_far by simp

section \<open>Properties of the state loading\<close>

lemma set_slice_zeros:
  "length pre = lo \<Longrightarrow> lo + length v = hi \<Longrightarrow> length v \<le> n \<Longrightarrow>
   set_slice (pre @ replicate n 0) lo hi v = Some (pre @ v @ replicate (n - length v) 0)"
  by (auto simp: set_slice_def Let_def min_def)

lemma mtimes_take:
  assumes "7 \<le> nv" "7 \<le> length v"
  shows "mtimes (map (\<lambda>r. take 7 (map (f r) [0..<nv])) [0..<3]) (take 7 v)
     = Some (map (\<lambda>r. \<Sum>c<7. f r c * v ! c) [0..<3])"
proof -
  have t: "take 7 (map g [0..<nv]) = map g [0..<7]" for g :: "nat \<Rightarrow> real"
    using assms(1) by (simp add: take_map take_upt)
  have z: "sum_list (map2 (\<lambda>a b. a * b) (map g [0..<7]) (take 7 v)) = (\<Sum>c<7. g c * v ! c)"
    for g :: "nat \<Rightarrow> real"
  proof -
    have "map2 (\<lambda>a b. a * b) (map g [0..<7]) (take 7 v) = map (\<lambda>c. g c * v ! c) [0..<7]"
      using assms(2) by (auto intro!: nth_equalityI)
    then show ?thesis
      by (simp add: interv_sum_list_conv_sum_set_nat atLeast0LessThan)
  qed
  show ?thesis
    using assms by (simp add: mtimes_def t z list_all_iff)
qed

lemma state_loading_value:
  assumes "7 \<le> length (qpos d)" "7 \<le> length (qvel d)"
    and "9 < length (xpos d)" "length (xpos d ! 9) = 3"
  shows "state_loading env d =
     Some (take 7 (qpos d), xpos d ! 9,
           [take 7 (qpos d) @ take 7 (qvel d) @ xpos d ! 9 @ hand_velocity env d])"
proof -
  let ?q = "take 7 (qpos d)" and ?v = "take 7 (qvel d)" and ?x = "xpos d ! 9"
  let ?xd = "hand_velocity env d"
  have x: "getitem (xpos d) 9 = Some ?x"
    using getitem_nat [of 9 "xpos d"] assms(3) by simp
  obtain fp fr where j: "mj_jac env d TARGET_POS 9 = (fp, fr)"
    by (cases "mj_jac env d TARGET_POS 9")
  have m: "mtimes (map (\<lambda>r. take 7 (map (fp r) [0..<length (qvel d)])) [0..<3]) ?v = Some ?xd"
    using mtimes_take [of "length (qvel d)" "qvel d" fp] assms(2)
    by (simp add: hand_velocity_def j)
  have l: "length ?q = 7" "length ?v = 7" "length ?x = 3" "length ?xd = 3"
    using assms by (simp_all add: hand_velocity_def)
  have s1: "set_slice (replicate 20 0) 0 7 ?q = Some (?q @ replicate 13 0)"
    using set_slice_zeros [of "[]" 0 ?q 7 20] assms by simp
  have s2: "set_slice (?q @ replicate 13 0) 7 14 ?v = Some (?q @ ?v @ replicate 6 0)"
    using set_slice_zeros [of ?q 7 ?v 14 13] assms by (simp add: hand_velocity_def)
  have s3: "set_slice (?q @ ?v @ replicate 6 0) 14 17 ?x = Some (?q @ ?v @ ?x @ replicate 3 0)"
    using set_slice_zeros [of "?q @ ?v" 14 ?x 17 6] assms by (simp add: hand_velocity_def)
  have s4: "set_slice (?q @ ?v @ ?x @ replicate 3 0) 17 20 ?xd = Some (?q @ ?v @ ?x @ ?xd)"
    using set_slice_zeros [of "?q @ ?v @ ?x" 17 ?xd 20 3] assms by (simp add: hand_velocity_def)
  show ?thesis
    by (simp add: state_loading_def compute_jacobian_def Let_def comp_def x j m s1 s2 s3 s4)
qed

text \<open>The toy simulator meets the requirements of the loop.\<close>

lemma toy_env_sel:
  "mj_step toy_env = toy_step" "mj_jac toy_env = toy_jac" "fresh_data toy_env = toy_fresh"
  "sampler toy_env = toy_sampler"
  by (simp_all add: toy_env_def)

lemma toy_step_dims: "preserves_dims toy_step"
  by (auto simp: preserves_dims_def dims_ok_def toy_step_def Let_def)

lemma toy_fresh_dims: "dims_ok toy_fresh"
  by (simp add: dims_ok_def toy_fresh_def)

lemma toy_trajectory_ok: "trajectory_ok (toy_trajectory n)"
  by (simp add: trajectory_ok_def toy_trajectory_def HORIZON_def)

lemma toy_env_ok: "env_ok toy_env"
  by (simp add: env_ok_def toy_env_sel toy_step_dims toy_fresh_dims sampler_ok_def
        toy_sampler_def toy_trajectory_ok)

text \<open>
  \<^bold>\<open>C4.\<close> For a simulator state with at least 7 joint positions and velocities and a
  body \<open>9\<close> of three coordinates, \<open>state_loading\<close> returns the 7 joint positions, the
  position of body \<open>9\<close>, and the context: a \<open>(1, 20)\<close> array whose row is, in order, the
  first 7 joint positions, the first 7 joint velocities, the position of body \<open>9\<close>, and
  the product of the position Jacobian's first 7 columns with the first 7 joint
  velocities.
\<close>

theorem state_loading_context:
  assumes "7 \<le> length (qpos d)" "7 \<le> length (qvel d)"
    and "9 < length (xpos d)" "length (xpos d ! 9) = 3"
  shows "state_loading env d =
       Some (take 7 (qpos d), xpos d ! 9,
             [take 7 (qpos d) @ take 7 (qvel d) @ xpos d ! 9 @ hand_velocity env d])
     \<and> length (take 7 (qpos d) @ take 7 (qvel d) @ xpos d ! 9 @ hand_velocity env d) = 20
     \<and> length (take 7 (qpos d)) = 7 \<and> length (take 7 (qvel d)) = 7
     \<and> length (hand_velocity env d) = 3"
  using state_loading_value [OF assms, of env] assms
  by (simp add: hand_velocity_def)

lemma toy_hand_velocity: "hand_velocity toy_env toy_data = [1, 0, 2]"
  by (simp add: hand_velocity_def toy_env_sel toy_jac_def toy_data_def upt_rec
        eval_nat_numeral lessThan_Suc)

theorem state_loading_context_witness:
  "7 \<le> length (qpos toy_data) \<and> 7 \<le> length (qvel toy_data)
   \<and> 9 < length (xpos toy_data) \<and> length (xpos toy_data ! 9) = 3
   \<and> state_loading toy_env toy_data =
       Some ([1, 2, 3, 4, 5, 6, 7], [3 / 10, 3 / 10, 1 / 2],
             [[1, 2, 3, 4, 5, 6, 7, 1, 0, 2, 0, 3, 0, 4, 3 / 10, 3 / 10, 1 / 2, 1, 0, 2]])"
proof -
  have h: "7 \<le> length (qpos toy_data)" "7 \<le> length (qvel toy_data)"
    "9 < length (xpos toy_data)" "length (xpos toy_data ! 9) = 3"
    by (simp_all add: toy_data_def nth_append)
  show ?thesis
    using state_loading_context [OF h, of toy_env] h
    by (simp add: toy_hand_velocity) (simp add: toy_data_def nth_append)
qed

section \<open>Properties of the rollout\<close>

lemma set_slice_first7:
  "7 \<le> length c \<Longrightarrow> length u = 7 \<Longrightarrow> set_slice c 0 7 u = Some (u @ drop 7 c)"
  by (simp add: set_slice_def Let_def)

lemma row3_control:
  assumes "0 < shape0 a" "k < shape1 a" "shape2 a = 7"
  shows "row3 a 0 (int k) = Some (control_at a k)"
  using assms py_index_nat [of 0 "shape0 a"] py_index_nat [of k "shape1 a"]
  by (simp add: row3_def control_at_def)

lemma length_control_at: "length (control_at a k) = 7"
  by (simp add: control_at_def)

lemma dims_ok_ctrl:
  "dims_ok d \<Longrightarrow> length u = 7 \<Longrightarrow> dims_ok (d\<lparr>ctrl := u @ drop 7 (ctrl d)\<rparr>)"
  by (simp add: dims_ok_def)

lemma dims_ok_qpos:
  "dims_ok d \<Longrightarrow> length u = 7 \<Longrightarrow> dims_ok (d\<lparr>qpos := u @ drop 7 (qpos d)\<rparr>)"
  by (simp add: dims_ok_def)

lemma preserves_dimsD: "preserves_dims step \<Longrightarrow> dims_ok d \<Longrightarrow> dims_ok (step d)"
  by (simp add: preserves_dims_def)

lemma rollout_dims:
  assumes "preserves_dims (mj_step env)" "dims_ok (fresh_data env)" "length q = 7"
  shows "dims_ok (rollout env inputs q k)"
proof (induction k)
  case 0
  show ?case
    using assms by (simp add: preserves_dimsD dims_ok_qpos)
next
  case (Suc k)
  then show ?case
    using assms(1) by (simp add: Let_def preserves_dimsD dims_ok_ctrl length_control_at)
qed

lemma set_column_state:
  assumes "shape0 s = 3" "j < shape1 s" "shape2 s = 1" "length v = 3"
  shows "set_column s (int j) 0 v =
     Some (s\<lparr>item3 := (\<lambda>i j' k. if i < 3 \<and> j' = j \<and> k = 0 then v ! i else item3 s i j' k)\<rparr>)"
  using assms py_index_nat [of j "shape1 s"] py_index_nat [of 0 "shape2 s"]
  by (simp add: set_column_def)

lemma horizon_loop_rollout:
  assumes pd: "preserves_dims (mj_step env)" "dims_ok (fresh_data env)" "length q = 7"
    and inp: "0 < shape0 inputs" "shape2 inputs = 7"
  shows "shape0 s = 3 \<Longrightarrow> shape2 s = 1 \<Longrightarrow> a + n \<le> shape1 inputs \<Longrightarrow> a + n < shape1 s \<Longrightarrow>
     horizon_loop env inputs [a..<a + n] (rollout env inputs q a, s)
       = Some (rollout env inputs q (a + n), fill_states env inputs q a (a + n) s)"
proof (induction n arbitrary: a s)
  case 0
  have "fill_states env inputs q a a s = s"
    by (auto simp: fill_states_def fun_eq_iff intro!: ndarray3.equality)
  then show ?case by simp
next
  case (Suc n)
  let ?d = "rollout env inputs q a" and ?d' = "rollout env inputs q (Suc a)"
  let ?s' = "s\<lparr>item3 := (\<lambda>i j' k. if i < 3 \<and> j' = Suc a \<and> k = 0 then xpos ?d' ! 9 ! i
                                  else item3 s i j' k)\<rparr>"
  have l: "[a..<a + Suc n] = a # [Suc a..<Suc a + n]"
    by (simp add: upt_rec)
  have u: "row3 inputs 0 (int a) = Some (control_at inputs a)"
    using row3_control [of inputs a] inp Suc.prems by simp
  have c: "set_slice (ctrl ?d) 0 7 (control_at inputs a) =
      Some (control_at inputs a @ drop 7 (ctrl ?d))"
    using set_slice_first7 [of "ctrl ?d" "control_at inputs a"] rollout_dims [OF pd, of inputs a]
    by (simp add: dims_ok_def length_control_at)
  have d': "mj_step env (?d\<lparr>ctrl := control_at inputs a @ drop 7 (ctrl ?d)\<rparr>) = ?d'"
    by (simp add: Let_def)
  have ok: "dims_ok ?d'"
    by (rule rollout_dims [OF pd])
  have x: "getitem (xpos ?d') 9 = Some (xpos ?d' ! 9)"
    using getitem_nat [of 9 "xpos ?d'"] ok by (simp add: dims_ok_def)
  have r: "reshape_n 3 (xpos ?d' ! 9) = Some (xpos ?d' ! 9)"
    using ok by (simp add: reshape_n_def dims_ok_def)
  have sc: "set_column s (int a + 1) 0 (xpos ?d' ! 9) = Some ?s'"
    using set_column_state [of s "Suc a" "xpos ?d' ! 9"] Suc.prems ok
    by (simp add: dims_ok_def add.commute)
  have ih: "horizon_loop env inputs [Suc a..<Suc a + n] (?d', ?s')
      = Some (rollout env inputs q (Suc a + n), fill_states env inputs q (Suc a) (Suc a + n) ?s')"
    using Suc.prems by (intro Suc.IH) simp_all
  have f: "fill_states env inputs q (Suc a) (Suc a + n) ?s' = fill_states env inputs q a (a + Suc n) s"
    by (auto simp: fill_states_def fun_eq_iff intro!: ndarray3.equality)
  show ?case
    unfolding l using ih f by (simp add: u c d' x r sc Let_def del: rollout.simps upt_Suc)
qed

lemma horizon_states_value:
  assumes pd: "preserves_dims (mj_step env)" "dims_ok (fresh_data env)" "length q = 7"
    and inp: "0 < shape0 inputs" "HORIZON \<le> shape1 inputs" "shape2 inputs = 7"
  shows "diffusion_horizon_states env x inputs q = Some (rollout_states env inputs q)"
proof -
  let ?d0 = "rollout env inputs q 0"
  let ?z = "zeros3 3 (HORIZON + 1) 1"
  let ?s0 = "?z\<lparr>item3 := (\<lambda>i j' k. if i < 3 \<and> j' = 0 \<and> k = 0 then xpos ?d0 ! 9 ! i
                                  else item3 ?z i j' k)\<rparr>"
  have q7: "reshape_n 7 q = Some q"
    using pd by (simp add: reshape_n_def)
  have qp: "set_slice (qpos (fresh_data env)) 0 7 q = Some (q @ drop 7 (qpos (fresh_data env)))"
    using set_slice_first7 [of "qpos (fresh_data env)" q] pd by (simp add: dims_ok_def)
  have ok: "dims_ok ?d0"
    by (rule rollout_dims [OF pd])
  have x: "getitem (xpos ?d0) 9 = Some (xpos ?d0 ! 9)"
    using getitem_nat [of 9 "xpos ?d0"] ok by (simp add: dims_ok_def)
  have r: "reshape_n 3 (xpos ?d0 ! 9) = Some (xpos ?d0 ! 9)"
    using ok by (simp add: reshape_n_def dims_ok_def)
  have sc: "set_column ?z 0 0 (xpos ?d0 ! 9) = Some ?s0"
    using set_column_state [of ?z 0 "xpos ?d0 ! 9"] ok
    by (simp add: dims_ok_def zeros3_def)
  have loop: "horizon_loop env inputs [0..<0 + HORIZON] (?d0, ?s0)
      = Some (rollout env inputs q (0 + HORIZON), fill_states env inputs q 0 (0 + HORIZON) ?s0)"
    by (rule horizon_loop_rollout [OF pd inp(1,3)]) (simp_all add: zeros3_def inp)
  have d0: "mj_step env ((fresh_data env)\<lparr>qpos := q @ drop 7 (qpos (fresh_data env))\<rparr>) = ?d0"
    by simp
  have loop': "horizon_loop env inputs [0..<HORIZON] (?d0, ?s0)
      = Some (rollout env inputs q HORIZON, fill_states env inputs q 0 HORIZON ?s0)"
    using loop by simp
  have f: "fill_states env inputs q 0 HORIZON ?s0 = rollout_states env inputs q"
    by (auto simp: fill_states_def rollout_states_def zeros3_def fun_eq_iff
          intro!: ndarray3.equality)
  show ?thesis
    unfolding diffusion_horizon_states_def Let_def
    by (simp only: q7 qp d0 x r sc loop' f Option.bind.bind_lunit prod.case)
qed

lemma state_at_rollout_states:
  assumes "length (xpos (rollout env inputs q k) ! 9) = 3" "k \<le> HORIZON"
  shows "state_at (rollout_states env inputs q) k = xpos (rollout env inputs q k) ! 9"
  using assms by (auto simp: state_at_def rollout_states_def eval_nat_numeral intro!: nth_equalityI simp: less_Suc_eq_0_disj)

lemma rollout_states_shape:
  "shape0 (rollout_states env inputs q) = 3"
  "shape1 (rollout_states env inputs q) = HORIZON + 1"
  "shape2 (rollout_states env inputs q) = 1"
  by (simp_all add: rollout_states_def)

text \<open>
  \<^bold>\<open>C5.\<close> The rollout over which the cost is evaluated. For a trajectory of shape
  \<open>(1, HORIZON, 7)\<close> and 7 current joint positions, \<open>diffusion_horizon_states\<close> returns an
  array of shape \<open>(3, HORIZON+1, 1)\<close>. Its entry \<open>0\<close> is the position of body \<open>9\<close> in a
  fresh simulation whose first 7 joint positions are the current ones, stepped once; its
  entry \<open>k+1\<close> is that position after the \<open>k\<close>-th control input is written to the
  controls and the same simulation is stepped once more (the function \<open>rollout\<close>).
\<close>

theorem horizon_states_rollout:
  assumes "preserves_dims (mj_step env)" "dims_ok (fresh_data env)" "length q = 7"
    and "trajectory_ok inputs"
  shows "\<exists>states. diffusion_horizon_states env x inputs q = Some states
     \<and> shape0 states = 3 \<and> shape1 states = HORIZON + 1 \<and> shape2 states = 1
     \<and> (\<forall>k\<le>HORIZON. state_at states k = xpos (rollout env inputs q k) ! 9)"
proof -
  have v: "diffusion_horizon_states env x inputs q = Some (rollout_states env inputs q)"
    using horizon_states_value [OF assms(1-3), of inputs x] assms(4)
    by (simp add: trajectory_ok_def)
  have "state_at (rollout_states env inputs q) k = xpos (rollout env inputs q k) ! 9"
    if "k \<le> HORIZON" for k
    using state_at_rollout_states [OF _ that, of env inputs q]
      rollout_dims [OF assms(1-3), of inputs k]
    by (simp add: dims_ok_def)
  with v show ?thesis
    by (simp add: rollout_states_shape)
qed

lemma toy_rollout_2:
  "xpos (rollout toy_env (toy_trajectory 0) [1, 2, 3, 4, 5, 6, 7] 2) ! 9 = [11 / 10, 23 / 10, 7 / 2]"
  by (simp add: eval_nat_numeral Let_def toy_env_sel toy_step_def toy_fresh_def
        toy_trajectory_def control_at_def upt_rec)

theorem horizon_states_rollout_witness:
  "preserves_dims (mj_step toy_env) \<and> dims_ok (fresh_data toy_env)
   \<and> length [1, 2, 3, 4, 5, 6, 7 :: real] = 7 \<and> trajectory_ok (toy_trajectory 0)
   \<and> (\<exists>states. diffusion_horizon_states toy_env [] (toy_trajectory 0) [1, 2, 3, 4, 5, 6, 7]
          = Some states
        \<and> shape1 states = 129 \<and> state_at states 2 = [11 / 10, 23 / 10, 7 / 2])"
proof -
  have h: "preserves_dims (mj_step toy_env)" "dims_ok (fresh_data toy_env)"
    "length [1, 2, 3, 4, 5, 6, 7 :: real] = 7" "trajectory_ok (toy_trajectory 0)"
    by (simp_all add: toy_env_sel toy_step_dims toy_fresh_dims toy_trajectory_ok)
  obtain states where s:
    "diffusion_horizon_states toy_env [] (toy_trajectory 0) [1, 2, 3, 4, 5, 6, 7] = Some states"
    "shape1 states = HORIZON + 1"
    "\<forall>k\<le>HORIZON. state_at states k
        = xpos (rollout toy_env (toy_trajectory 0) [1, 2, 3, 4, 5, 6, 7] k) ! 9"
    using horizon_states_rollout [OF h, of "[]"] by blast
  have "state_at states 2 = [11 / 10, 23 / 10, 7 / 2]"
    using s(3) toy_rollout_2 by (simp add: HORIZON_def)
  with s(1,2) h show ?thesis
    by (simp add: HORIZON_def)
qed

section \<open>Properties of the control loop\<close>

lemma set_row_ok:
  assumes "mem_ok w M" "s < SAMPLING_STEPS" "length v = w"
  shows "set_row M (int s) v = Some (M[s := v])" "mem_ok w (M[s := v])"
proof -
  have r: "length (M ! s) = w"
    using assms by (simp add: mem_ok_def list_all_length)
  show "set_row M (int s) v = Some (M[s := v])"
    using assms r py_index_nat [of s "length M"]
    by (simp add: set_row_def set_slice_def mem_ok_def)
  show "mem_ok w (M[s := v])"
    using assms by (auto simp: mem_ok_def list_all_length nth_list_update)
qed

lemma set_item2_ok:
  assumes "mem_ok 1 M" "s < SAMPLING_STEPS"
  shows "set_item2 M (int s) 0 x = Some (M[s := [x]])" "mem_ok 1 (M[s := [x]])"
proof -
  have r: "length (M ! s) = 1"
    using assms by (simp add: mem_ok_def list_all_length)
  then obtain y where y: "M ! s = [y]"
    by (cases "M ! s") auto
  show "set_item2 M (int s) 0 x = Some (M[s := [x]])"
    using assms y py_index_nat [of s "length M"] py_index_nat [of 0 "length (M ! s)"]
    by (simp add: set_item2_def mem_ok_def)
  show "mem_ok 1 (M[s := [x]])"
    using assms by (auto simp: mem_ok_def list_all_length nth_list_update)
qed

lemma py_last_nonempty: "xs \<noteq> [] \<Longrightarrow> py_last xs = Some (last xs)"
  using py_index_last [of "length xs"]
  by (simp add: py_last_def getitem_def last_conv_nth)

lemma norm_diff_3: "length x = 3 \<Longrightarrow> \<exists>r. norm_diff x TARGET_POS = Some r"
  by (simp add: norm_diff_def TARGET_POS_def)

lemma mpc_cost_returns:
  assumes "shape0 ps = 3" "shape1 ps = HORIZON + 1" "shape2 ps = 1" "trajectory_ok pc"
  shows "\<exists>c. mpc_cost ps pc Q_weight R_weight P_weight = Some c"
proof -
  have H: "HORIZON = Suc 127"
    by (simp add: HORIZON_def)
  show ?thesis
    using mpc_cost_general [of Q_weight P_weight ps 127 pc R_weight] assms weights_3x3
    by (simp add: H trajectory_ok_def)
qed

lemma sampling_branch_ok:
  assumes env: "env_ok env" and st: "state_ok st" and s: "sampling_step st < SAMPLING_STEPS"
  shows "\<exists>st'. sampling_branch env st = Some st' \<and> state_ok st'
     \<and> sampling_step st' = Suc (sampling_step st)
     \<and> data st' = write_ctrl (control_at (inputs_final_at env (sampling_step st) (data st)) 0) (data st)"
proof -
  let ?d = "data st" and ?n = "sampling_step st"
  let ?q = "take 7 (qpos ?d)" and ?x = "xpos ?d ! 9"
  let ?traj = "inputs_final_at env ?n ?d"
  let ?u = "control_at ?traj 0"
  have d: "dims_ok ?d"
    using st by (simp add: state_ok_def)
  have pd: "preserves_dims (mj_step env)" "dims_ok (fresh_data env)"
    using env by (simp_all add: env_ok_def)
  have lq: "length ?q = 7" and lx: "length ?x = 3"
    using d by (simp_all add: dims_ok_def)
  have sl: "state_loading env ?d = Some (?q, ?x, context_of env ?d)"
    using state_loading_value [of ?d env] d by (simp add: dims_ok_def context_of_def)
  have q7: "reshape_n 7 ?q = Some ?q" and x3: "reshape_n 3 ?x = Some ?x"
    using lq lx by (simp_all add: reshape_n_def)
  have m: "mem_ok 3 (x_pos_memory st)" "mem_ok 7 (q_pos_memory st)" "mem_ok 7 (ctl_memory st)"
    "mem_ok 1 (abs_dis_memory st)" "mem_ok 1 (cost_memory st)" "mem_ok 1 (single_time_set st)"
    using st by (simp_all add: state_ok_def)
  obtain dist where dist: "norm_diff ?x TARGET_POS = Some dist"
    using norm_diff_3 [OF lx] by blast
  have smp: "sampler env ?n (context_of env ?d) \<noteq> []" "trajectory_ok ?traj"
    using env by (simp_all add: env_ok_def sampler_ok_def inputs_final_at_def)
  have pl: "py_last (sampler env ?n (context_of env ?d)) = Some ?traj"
    using py_last_nonempty [OF smp(1)] by (simp add: inputs_final_at_def)
  have hs: "diffusion_horizon_states env ?x ?traj ?q = Some (rollout_states env ?traj ?q)"
    using horizon_states_value [OF pd lq, of ?traj ?x] smp(2) by (simp add: trajectory_ok_def)
  obtain cost where cost:
    "mpc_cost (rollout_states env ?traj ?q) ?traj Q_weight R_weight P_weight = Some cost"
    using mpc_cost_returns [OF rollout_states_shape smp(2)] by blast
  have u: "row3 ?traj 0 0 = Some ?u"
    using row3_control [of ?traj 0] smp(2) by (simp add: trajectory_ok_def HORIZON_def)
  have lu: "length ?u = 7"
    by (rule length_control_at)
  have c: "set_slice (ctrl ?d) 0 7 ?u = Some (?u @ drop 7 (ctrl ?d))"
    using set_slice_first7 [of "ctrl ?d" ?u] d lu by (simp add: dims_ok_def)
  have ld: "length [dist] = 1"
    by simp
  note w = set_row_ok [OF m(2) s lq] set_row_ok [OF m(1) s lx] set_row_ok [OF m(4) s ld]
    set_item2_ok [OF m(6) s] set_item2_ok [OF m(5) s] set_row_ok [OF m(3) s lu]
  have "sampling_branch env st =
      Some (st\<lparr>data := ?d\<lparr>ctrl := ?u @ drop 7 (ctrl ?d)\<rparr>,
               x_pos_memory := (x_pos_memory st)[?n := ?x],
               q_pos_memory := (q_pos_memory st)[?n := ?q],
               ctl_memory := (ctl_memory st)[?n := ?u],
               abs_dis_memory := (abs_dis_memory st)[?n := [dist]],
               cost_memory := (cost_memory st)[?n := [cost]],
               single_time_set := (single_time_set st)[?n := [timer env ?n]],
               sampling_step := ?n + 1\<rparr>)"
    unfolding sampling_branch_def Let_def
    by (simp only: sl q7 x3 dist pl hs cost u c w Option.bind.bind_lunit prod.case)
  moreover have "dims_ok (?d\<lparr>ctrl := ?u @ drop 7 (ctrl ?d)\<rparr>)"
    using dims_ok_ctrl [OF d lu] .
  ultimately show ?thesis
    using w by (simp add: state_ok_def write_ctrl_def)
qed

lemma state_loading_returns:
  "dims_ok d \<Longrightarrow> \<exists>r. state_loading env d = Some r"
  using state_loading_value [of d env] by (simp add: dims_ok_def)

lemma loop_body_ok:
  assumes env: "env_ok env" and st: "state_ok st"
    and s: "p mod CONTROL_RATE = 0 \<Longrightarrow> sampling_step st < SAMPLING_STEPS"
  shows "\<exists>st'. loop_body env p st = Some st' \<and> state_ok st'
     \<and> sampling_step st' =
         (if p mod CONTROL_RATE = 0 then Suc (sampling_step st) else sampling_step st)
     \<and> data st' = mj_step env
         (if p mod CONTROL_RATE = 0
          then write_ctrl (control_at (inputs_final_at env (sampling_step st) (data st)) 0) (data st)
          else data st)"
proof -
  have pd: "preserves_dims (mj_step env)"
    using env by (simp add: env_ok_def)
  obtain st1 where b: "(if p mod CONTROL_RATE = 0 then sampling_branch env st else Some st) = Some st1"
    and ok1: "state_ok st1"
    and n1: "sampling_step st1 =
         (if p mod CONTROL_RATE = 0 then Suc (sampling_step st) else sampling_step st)"
    and d1: "data st1 =
         (if p mod CONTROL_RATE = 0
          then write_ctrl (control_at (inputs_final_at env (sampling_step st) (data st)) 0) (data st)
          else data st)"
  proof (cases "p mod CONTROL_RATE = 0")
    case True
    with sampling_branch_ok [OF env st s] that show ?thesis by auto
  next
    case False
    with st that show ?thesis by auto
  qed
  let ?st2 = "st1\<lparr>data := mj_step env (data st1)\<rparr>"
  have ok2: "state_ok ?st2"
    using ok1 preserves_dimsD [OF pd, of "data st1"] by (simp add: state_ok_def)
  then obtain r where r: "state_loading env (mj_step env (data st1)) = Some r"
    using state_loading_returns [of "mj_step env (data st1)" env] by (auto simp: state_ok_def)
  have "loop_body env p st = Some ?st2"
    unfolding loop_body_def Let_def by (simp add: b r)
  with ok2 n1 d1 show ?thesis by simp
qed

lemma for_loop_append:
  "for_loop body (xs @ ys) s = for_loop body xs s \<bind> for_loop body ys"
  by (induction xs arbitrary: s) (auto split: bind_splits)

lemma ticks_arith:
  fixes p :: nat
  shows "p mod 10 = 0 \<Longrightarrow> (p + 9) div 10 = p div 10"
    and "p mod 10 = 0 \<Longrightarrow> (Suc p + 9) div 10 = Suc (p div 10)"
    and "p mod 10 \<noteq> 0 \<Longrightarrow> (Suc p + 9) div 10 = (p + 9) div 10"
proof -
  define k where "k = p div 10"
  define r where "r = p mod 10"
  have p: "p = 10 * k + r"
    by (simp add: k_def r_def)
  have r: "r < 10"
    by (simp add: r_def)
  show "(p + 9) div 10 = p div 10" if "p mod 10 = 0"
  proof -
    have "r = 0" using that by (simp add: r_def)
    then have "p = 10 * k" using p by simp
    then show ?thesis by simp
  qed
  show "(Suc p + 9) div 10 = Suc (p div 10)" if "p mod 10 = 0"
  proof -
    have "r = 0" using that by (simp add: r_def)
    then have "p = 10 * k" using p by simp
    then show ?thesis by simp
  qed
  show "(Suc p + 9) div 10 = (p + 9) div 10" if "p mod 10 \<noteq> 0"
  proof -
    have "0 < r" using that by (simp add: r_def)
    then obtain r' where r': "r = Suc r'" by (cases r) auto
    have a: "Suc p + 9 = r + 10 * Suc k" by (simp add: p)
    have b: "p + 9 = r' + 10 * Suc k" by (simp add: p r')
    have "(r + 10 * Suc k) div 10 = Suc k"
      using r by simp
    moreover have "(r' + 10 * Suc k) div 10 = Suc k"
      using r r' by simp
    ultimately show ?thesis
      by (simp only: a b)
  qed
qed

lemma for_loop_ok:
  assumes env: "env_ok env" and st0: "state_ok st0" "sampling_step st0 = 0"
  shows "p \<le> SAMPLING_STEPS * CONTROL_RATE \<Longrightarrow>
     \<exists>st. for_loop (loop_body env) [0..<p] st0 = Some st \<and> state_ok st
        \<and> sampling_step st = (p + 9) div 10"
proof (induction p)
  case 0
  with st0 show ?case by simp
next
  case (Suc p)
  then obtain st where st: "for_loop (loop_body env) [0..<p] st0 = Some st" "state_ok st"
    "sampling_step st = (p + 9) div 10"
    by auto
  have lt: "p < 2000"
    using Suc.prems by (simp add: SAMPLING_STEPS_def CONTROL_RATE_def)
  have s: "p mod CONTROL_RATE = 0 \<Longrightarrow> sampling_step st < SAMPLING_STEPS"
    using st(3) lt ticks_arith(1) [of p] by (simp add: SAMPLING_STEPS_def CONTROL_RATE_def)
  obtain st' where st': "loop_body env p st = Some st'" "state_ok st'"
    "sampling_step st' = (if p mod CONTROL_RATE = 0 then Suc (sampling_step st) else sampling_step st)"
    using loop_body_ok [OF env st(2) s] by blast
  have n: "sampling_step st' = (Suc p + 9) div 10"
    using st'(3) st(3) ticks_arith [of p] by (simp add: CONTROL_RATE_def split: if_splits)
  have "for_loop (loop_body env) [0..<Suc p] st0 = Some st'"
    using st(1) st'(1) by (simp add: for_loop_append)
  with st'(2) n show ?case by blast
qed

lemma mem_ok_zeros: "mem_ok w (zeros2 SAMPLING_STEPS w)"
  by (simp add: mem_ok_def zeros2_def list_all_length)

lemma initial_state_ok:
  assumes "env_ok env"
  shows "\<exists>st0. initial_state env = Some st0 \<and> state_ok st0 \<and> sampling_step st0 = 0"
proof -
  have pd: "preserves_dims (mj_step env)" and f: "dims_ok (fresh_data env)"
    using assms by (simp_all add: env_ok_def)
  let ?z = "replicate 7 (0::real)"
  have qp: "set_slice (qpos (fresh_data env)) 0 7 ?z = Some (?z @ drop 7 (qpos (fresh_data env)))"
    using set_slice_first7 [of "qpos (fresh_data env)" ?z] f by (simp add: dims_ok_def)
  have "dims_ok (mj_step env ((fresh_data env)\<lparr>qpos := ?z @ drop 7 (qpos (fresh_data env))\<rparr>))"
    using preserves_dimsD [OF pd] dims_ok_qpos [OF f, of ?z] by simp
  then show ?thesis
    by (simp add: initial_state_def Let_def qp state_ok_def mem_ok_zeros)
qed

lemma state_before_ok:
  assumes "env_ok env" "p \<le> SAMPLING_STEPS * CONTROL_RATE"
  shows "\<exists>st. state_before env p = Some st \<and> state_ok st \<and> sampling_step st = (p + 9) div 10"
proof -
  obtain st0 where st0: "initial_state env = Some st0" "state_ok st0" "sampling_step st0 = 0"
    using initial_state_ok [OF assms(1)] by blast
  show ?thesis
    using for_loop_ok [OF assms(1) st0(2,3) assms(2)] st0(1) by (simp add: state_before_def)
qed

lemma control_loop_state_before:
  "control_loop env = state_before env (SAMPLING_STEPS * CONTROL_RATE)"
  by (simp add: control_loop_def state_before_def panda_steps_def)

lemma state_before_Suc:
  "state_before env (Suc p) = state_before env p \<bind> loop_body env p"
  by (simp add: state_before_def for_loop_append split: bind_splits)

lemma state_before_step:
  assumes env: "env_ok env" and p: "p < SAMPLING_STEPS * CONTROL_RATE"
  shows "\<exists>st st'. state_before env p = Some st \<and> state_before env (Suc p) = Some st'
     \<and> state_ok st \<and> sampling_step st = (p + 9) div 10
     \<and> data st' = mj_step env
         (if p mod CONTROL_RATE = 0
          then write_ctrl (control_at (inputs_final_at env (sampling_step st) (data st)) 0) (data st)
          else data st)"
proof -
  obtain st where st: "state_before env p = Some st" "state_ok st"
    "sampling_step st = (p + 9) div 10"
    using state_before_ok [OF env, of p] p by auto
  have lt: "p < 2000"
    using p by (simp add: SAMPLING_STEPS_def CONTROL_RATE_def)
  have s: "p mod CONTROL_RATE = 0 \<Longrightarrow> sampling_step st < SAMPLING_STEPS"
    using st(3) lt ticks_arith(1) [of p] by (simp add: SAMPLING_STEPS_def CONTROL_RATE_def)
  obtain st' where st': "loop_body env p st = Some st'"
    "data st' = mj_step env
         (if p mod CONTROL_RATE = 0
          then write_ctrl (control_at (inputs_final_at env (sampling_step st) (data st)) 0) (data st)
          else data st)"
    using loop_body_ok [OF env st(2) s] by blast
  have "state_before env (Suc p) = Some st'"
    using st(1) st'(1) by (simp add: state_before_Suc)
  with st st'(2) show ?thesis by blast
qed

text \<open>
  \<^bold>\<open>C2.\<close> Every iteration \<open>p\<close> of the outer loop runs and advances the physics by
  exactly one step. At a sampling tick (\<open>p\<close> divisible by \<open>CONTROL_RATE\<close>) the step is
  taken after the first 7 controls are overwritten with \<^verbatim>\<open>inputs_final[0,0,:]\<close>, the
  first control input of the last iterate the sampler returned for the current context;
  the simulation after the iteration depends on that trajectory through this first input
  only. Between ticks the controls are not written.
\<close>

theorem loop_applies_first_input:
  assumes "env_ok env" "p < SAMPLING_STEPS * CONTROL_RATE"
  shows "\<exists>st st'. state_before env p = Some st \<and> state_before env (Suc p) = Some st'
     \<and> data st' = mj_step env
         (if p mod CONTROL_RATE = 0
          then (data st)\<lparr>ctrl :=
                 control_at (inputs_final_at env (p div CONTROL_RATE) (data st)) 0
                 @ drop 7 (ctrl (data st))\<rparr>
          else data st)"
proof -
  obtain st st' where a: "state_before env p = Some st" "state_before env (Suc p) = Some st'"
    "sampling_step st = (p + 9) div 10"
    "data st' = mj_step env
         (if p mod CONTROL_RATE = 0
          then write_ctrl (control_at (inputs_final_at env (sampling_step st) (data st)) 0) (data st)
          else data st)"
    using state_before_step [OF assms] by blast
  have "p mod CONTROL_RATE = 0 \<Longrightarrow> sampling_step st = p div CONTROL_RATE"
    using a(3) ticks_arith(1) [of p] by (simp add: CONTROL_RATE_def)
  with a show ?thesis
    by (auto simp: write_ctrl_def)
qed

lemma toy_first_input:
  "control_at (inputs_final_at toy_env 0 d) 0 = [0, 1, 2, 3, 4, 5, 6]"
  by (simp add: inputs_final_at_def toy_env_sel toy_sampler_def toy_trajectory_def
        control_at_def upt_rec)

theorem loop_applies_first_input_witness:
  "env_ok toy_env \<and> (0::nat) < SAMPLING_STEPS * CONTROL_RATE
   \<and> (\<exists>st st'. state_before toy_env 0 = Some st \<and> state_before toy_env (Suc 0) = Some st'
        \<and> data st' = toy_step ((data st)\<lparr>ctrl := [0, 1, 2, 3, 4, 5, 6] @ drop 7 (ctrl (data st))\<rparr>))"
proof -
  have p: "(0::nat) < SAMPLING_STEPS * CONTROL_RATE"
    by (simp add: SAMPLING_STEPS_def CONTROL_RATE_def)
  show ?thesis
    using loop_applies_first_input [OF toy_env_ok p] toy_env_ok p
    by (simp add: toy_first_input toy_env_sel)
qed

lemma length_panda_steps: "length panda_steps = 2000"
  by (simp add: panda_steps_def SAMPLING_STEPS_def CONTROL_RATE_def)

lemma ticks_count: "length (filter (\<lambda>p. p mod CONTROL_RATE = 0) panda_steps) = 200"
proof -
  have "set (filter (\<lambda>p. p mod 10 = 0) [0..<2000]) = (\<lambda>i. 10 * i) ` {0..<200::nat}"
  proof (intro set_eqI iffI)
    fix p :: nat
    assume "p \<in> set (filter (\<lambda>p. p mod 10 = 0) [0..<2000])"
    then have "p = 10 * (p div 10)" "p div 10 < 200"
      by auto
    then show "p \<in> (\<lambda>i. 10 * i) ` {0..<200}"
      by (metis atLeastLessThan_iff image_eqI zero_le)
  next
    fix p :: nat
    assume "p \<in> (\<lambda>i. 10 * i) ` {0..<200}"
    then show "p \<in> set (filter (\<lambda>p. p mod 10 = 0) [0..<2000])"
      by auto
  qed
  moreover have "card ((\<lambda>i. 10 * i) ` {0..<200::nat}) = 200"
    by (simp add: card_image inj_on_def)
  moreover have "distinct (filter (\<lambda>p. p mod 10 = 0) [0..<2000::nat])"
    by simp
  ultimately have "length (filter (\<lambda>p. p mod 10 = 0) [0..<2000::nat]) = 200"
    using distinct_card by metis
  then show ?thesis
    by (simp add: panda_steps_def SAMPLING_STEPS_def CONTROL_RATE_def)
qed

text \<open>
  \<^bold>\<open>C6.\<close> The control loop is a loop of a fixed number of iterations over
  preallocated arrays. It runs over \<open>SAMPLING_STEPS * CONTROL_RATE = 2000\<close> values of
  \<open>panda_step\<close> and ends; \<open>SAMPLING_STEPS = 200\<close> of them are sampling ticks, and the
  counter \<open>sampling_step\<close>, which every tick increments once, ends at \<open>200\<close>. Before every
  tick \<open>p\<close> the counter is \<open>p div CONTROL_RATE < SAMPLING_STEPS\<close>, so every write into
  the arrays (each of \<open>SAMPLING_STEPS\<close> rows) is inside them: the writes check their row
  index, and the loop returns.
\<close>

theorem control_loop_fixed_iterations:
  assumes "env_ok env"
  shows "length panda_steps = SAMPLING_STEPS * CONTROL_RATE
     \<and> SAMPLING_STEPS * CONTROL_RATE = 2000
     \<and> length (filter (\<lambda>p. p mod CONTROL_RATE = 0) panda_steps) = SAMPLING_STEPS
     \<and> (\<exists>st. control_loop env = Some st \<and> sampling_step st = SAMPLING_STEPS \<and> state_ok st)
     \<and> (\<forall>p < SAMPLING_STEPS * CONTROL_RATE. p mod CONTROL_RATE = 0 \<longrightarrow>
          (\<exists>st. state_before env p = Some st \<and> state_ok st
             \<and> sampling_step st = p div CONTROL_RATE \<and> sampling_step st < SAMPLING_STEPS))"
proof -
  have n: "SAMPLING_STEPS * CONTROL_RATE = 2000"
    by (simp add: SAMPLING_STEPS_def CONTROL_RATE_def)
  obtain st where st: "control_loop env = Some st" "state_ok st"
    "sampling_step st = (SAMPLING_STEPS * CONTROL_RATE + 9) div 10"
    using state_before_ok [OF assms, of "SAMPLING_STEPS * CONTROL_RATE"]
    by (auto simp: control_loop_state_before)
  have e: "\<exists>st. control_loop env = Some st \<and> sampling_step st = SAMPLING_STEPS \<and> state_ok st"
    using st by (simp add: SAMPLING_STEPS_def CONTROL_RATE_def)
  have t: "\<exists>st. state_before env p = Some st \<and> state_ok st
             \<and> sampling_step st = p div CONTROL_RATE \<and> sampling_step st < SAMPLING_STEPS"
    if lt: "p < SAMPLING_STEPS * CONTROL_RATE" and tick: "p mod CONTROL_RATE = 0" for p
  proof -
    obtain s where s: "state_before env p = Some s" "state_ok s"
      "sampling_step s = (p + 9) div 10"
      using state_before_ok [OF assms less_imp_le [OF lt]] by auto
    have "sampling_step s = p div 10"
      using s(3) ticks_arith(1) [of p] tick by (simp add: CONTROL_RATE_def)
    moreover have "p div 10 < 200"
      using lt by (simp add: n)
    ultimately show ?thesis
      using s by (simp add: CONTROL_RATE_def SAMPLING_STEPS_def)
  qed
  show ?thesis
    using e t by (simp add: length_panda_steps ticks_count n) (simp add: SAMPLING_STEPS_def)
qed

theorem control_loop_fixed_iterations_witness:
  "env_ok toy_env
   \<and> (\<exists>st. control_loop toy_env = Some st \<and> sampling_step st = 200)
   \<and> (\<exists>st. state_before toy_env 1990 = Some st \<and> sampling_step st = 199)"
proof -
  have a: "\<exists>st. control_loop toy_env = Some st \<and> sampling_step st = 200"
    using control_loop_fixed_iterations [OF toy_env_ok] by (auto simp: SAMPLING_STEPS_def)
  have p: "(1990::nat) < SAMPLING_STEPS * CONTROL_RATE" "(1990::nat) mod CONTROL_RATE = 0"
    by (simp_all add: SAMPLING_STEPS_def CONTROL_RATE_def)
  have all: "\<forall>p<SAMPLING_STEPS * CONTROL_RATE. p mod CONTROL_RATE = 0 \<longrightarrow>
          (\<exists>st. state_before toy_env p = Some st \<and> state_ok st
             \<and> sampling_step st = p div CONTROL_RATE \<and> sampling_step st < SAMPLING_STEPS)"
    using control_loop_fixed_iterations [OF toy_env_ok] by simp
  have "\<exists>st. state_before toy_env 1990 = Some st \<and> state_ok st
             \<and> sampling_step st = 1990 div CONTROL_RATE \<and> sampling_step st < SAMPLING_STEPS"
    by (rule all [rule_format, OF p])
  then have "\<exists>st. state_before toy_env 1990 = Some st \<and> sampling_step st = 1990 div CONTROL_RATE"
    by auto
  then have b: "\<exists>st. state_before toy_env 1990 = Some st \<and> sampling_step st = 199"
    by (simp add: CONTROL_RATE_def)
  show ?thesis
    using toy_env_ok a b by blast
qed

section \<open>Properties of the saved results\<close>

lemma mpc_cost_value:
  assumes "shape0 ps = 3" "shape1 ps = HORIZON + 1" "shape2 ps = 1" "trajectory_ok pc"
  shows "mpc_cost ps pc Q_weight R_weight P_weight = Some (quadratic_cost ps pc)"
proof -
  have H: "HORIZON = Suc 127"
    by (simp add: HORIZON_def)
  show ?thesis
    using mpc_cost_general [of Q_weight P_weight ps 127 pc R_weight] assms weights_3x3
    by (simp add: H trajectory_ok_def quadratic_cost_def)
qed

lemma sampling_branch_memories:
  assumes env: "env_ok env" and st: "state_ok st" and s: "sampling_step st < SAMPLING_STEPS"
  shows "\<exists>st'. sampling_branch env st = Some st'
     \<and> x_pos_memory st' = (x_pos_memory st)[sampling_step st := xpos (data st) ! 9]
     \<and> cost_memory st' = (cost_memory st)[sampling_step st :=
          [quadratic_cost
             (rollout_states env (inputs_final_at env (sampling_step st) (data st))
                (take 7 (qpos (data st))))
             (inputs_final_at env (sampling_step st) (data st))]]
     \<and> single_time_set st' = (single_time_set st)[sampling_step st := [timer env (sampling_step st)]]"
proof -
  let ?d = "data st" and ?n = "sampling_step st"
  let ?q = "take 7 (qpos ?d)" and ?x = "xpos ?d ! 9"
  let ?traj = "inputs_final_at env ?n ?d"
  let ?u = "control_at ?traj 0"
  let ?cost = "quadratic_cost (rollout_states env ?traj ?q) ?traj"
  have d: "dims_ok ?d"
    using st by (simp add: state_ok_def)
  have pd: "preserves_dims (mj_step env)" "dims_ok (fresh_data env)"
    using env by (simp_all add: env_ok_def)
  have lq: "length ?q = 7" and lx: "length ?x = 3"
    using d by (simp_all add: dims_ok_def)
  have sl: "state_loading env ?d = Some (?q, ?x, context_of env ?d)"
    using state_loading_value [of ?d env] d by (simp add: dims_ok_def context_of_def)
  have q7: "reshape_n 7 ?q = Some ?q" and x3: "reshape_n 3 ?x = Some ?x"
    using lq lx by (simp_all add: reshape_n_def)
  have m: "mem_ok 3 (x_pos_memory st)" "mem_ok 7 (q_pos_memory st)" "mem_ok 7 (ctl_memory st)"
    "mem_ok 1 (abs_dis_memory st)" "mem_ok 1 (cost_memory st)" "mem_ok 1 (single_time_set st)"
    using st by (simp_all add: state_ok_def)
  obtain dist where dist: "norm_diff ?x TARGET_POS = Some dist"
    using norm_diff_3 [OF lx] by blast
  have smp: "sampler env ?n (context_of env ?d) \<noteq> []" "trajectory_ok ?traj"
    using env by (simp_all add: env_ok_def sampler_ok_def inputs_final_at_def)
  have pl: "py_last (sampler env ?n (context_of env ?d)) = Some ?traj"
    using py_last_nonempty [OF smp(1)] by (simp add: inputs_final_at_def)
  have hs: "diffusion_horizon_states env ?x ?traj ?q = Some (rollout_states env ?traj ?q)"
    using horizon_states_value [OF pd lq, of ?traj ?x] smp(2) by (simp add: trajectory_ok_def)
  have cost:
    "mpc_cost (rollout_states env ?traj ?q) ?traj Q_weight R_weight P_weight = Some ?cost"
    by (rule mpc_cost_value [OF rollout_states_shape smp(2)])
  have u: "row3 ?traj 0 0 = Some ?u"
    using row3_control [of ?traj 0] smp(2) by (simp add: trajectory_ok_def HORIZON_def)
  have lu: "length ?u = 7"
    by (rule length_control_at)
  have c: "set_slice (ctrl ?d) 0 7 ?u = Some (?u @ drop 7 (ctrl ?d))"
    using set_slice_first7 [of "ctrl ?d" ?u] d lu by (simp add: dims_ok_def)
  have ld: "length [dist] = 1"
    by simp
  note w = set_row_ok [OF m(2) s lq] set_row_ok [OF m(1) s lx] set_row_ok [OF m(4) s ld]
    set_item2_ok [OF m(6) s] set_item2_ok [OF m(5) s] set_row_ok [OF m(3) s lu]
  have "sampling_branch env st =
      Some (st\<lparr>data := ?d\<lparr>ctrl := ?u @ drop 7 (ctrl ?d)\<rparr>,
               x_pos_memory := (x_pos_memory st)[?n := ?x],
               q_pos_memory := (q_pos_memory st)[?n := ?q],
               ctl_memory := (ctl_memory st)[?n := ?u],
               abs_dis_memory := (abs_dis_memory st)[?n := [dist]],
               cost_memory := (cost_memory st)[?n := [?cost]],
               single_time_set := (single_time_set st)[?n := [timer env ?n]],
               sampling_step := ?n + 1\<rparr>)"
    unfolding sampling_branch_def Let_def
    by (simp only: sl q7 x3 dist pl hs cost u c w Option.bind.bind_lunit prod.case)
  then show ?thesis by simp
qed

lemma loop_body_memories:
  assumes env: "env_ok env" and st: "state_ok st"
    and s: "p mod CONTROL_RATE = 0 \<Longrightarrow> sampling_step st < SAMPLING_STEPS"
    and b: "loop_body env p st = Some st'"
  shows "if p mod CONTROL_RATE = 0
     then x_pos_memory st' = (x_pos_memory st)[sampling_step st := xpos (data st) ! 9]
        \<and> cost_memory st' = (cost_memory st)[sampling_step st :=
             [quadratic_cost
                (rollout_states env (inputs_final_at env (sampling_step st) (data st))
                   (take 7 (qpos (data st))))
                (inputs_final_at env (sampling_step st) (data st))]]
        \<and> single_time_set st' = (single_time_set st)[sampling_step st := [timer env (sampling_step st)]]
     else x_pos_memory st' = x_pos_memory st \<and> cost_memory st' = cost_memory st
        \<and> single_time_set st' = single_time_set st"
proof (cases "p mod CONTROL_RATE = 0")
  case True
  obtain st1 where st1: "sampling_branch env st = Some st1"
    "x_pos_memory st1 = (x_pos_memory st)[sampling_step st := xpos (data st) ! 9]"
    "cost_memory st1 = (cost_memory st)[sampling_step st :=
          [quadratic_cost
             (rollout_states env (inputs_final_at env (sampling_step st) (data st))
                (take 7 (qpos (data st))))
             (inputs_final_at env (sampling_step st) (data st))]]"
    "single_time_set st1 = (single_time_set st)[sampling_step st := [timer env (sampling_step st)]]"
    using sampling_branch_memories [OF env st s [OF True]] by blast
  have "st' = st1\<lparr>data := mj_step env (data st1)\<rparr>"
    using b True st1(1) by (auto simp: loop_body_def Let_def split: bind_splits if_splits)
  with st1 True show ?thesis by simp
next
  case False
  have "st' = st\<lparr>data := mj_step env (data st)\<rparr>"
    using b False by (auto simp: loop_body_def Let_def split: bind_splits if_splits)
  with False show ?thesis by simp
qed


lemma initial_state_data:
  assumes "env_ok env"
  shows "\<exists>st0. initial_state env = Some st0 \<and> state_ok st0 \<and> sampling_step st0 = 0
     \<and> data st0 = sim_run env 0"
proof -
  have pd: "preserves_dims (mj_step env)" and f: "dims_ok (fresh_data env)"
    using assms by (simp_all add: env_ok_def)
  let ?z = "replicate 7 (0::real)"
  have qp: "set_slice (qpos (fresh_data env)) 0 7 ?z = Some (?z @ drop 7 (qpos (fresh_data env)))"
    using set_slice_first7 [of "qpos (fresh_data env)" ?z] f by (simp add: dims_ok_def)
  have "dims_ok (mj_step env ((fresh_data env)\<lparr>qpos := ?z @ drop 7 (qpos (fresh_data env))\<rparr>))"
    using preserves_dimsD [OF pd] dims_ok_qpos [OF f, of ?z] by simp
  then show ?thesis
    by (simp add: initial_state_def Let_def qp state_ok_def mem_ok_zeros)
qed

lemma tick_index:
  fixes p :: nat
  assumes "p mod 10 = 0"
  shows "p div 10 * 10 = p"
  using assms by (metis div_mult_mod_eq add.right_neutral)

lemma state_before_recorded:
  assumes env: "env_ok env"
  shows "p \<le> SAMPLING_STEPS * CONTROL_RATE \<Longrightarrow>
     \<exists>st. state_before env p = Some st \<and> state_ok st \<and> sampling_step st = (p + 9) div 10
        \<and> data st = sim_run env p \<and> recorded env st"
proof (induction p)
  case 0
  obtain st0 where "initial_state env = Some st0" "state_ok st0" "sampling_step st0 = 0"
    "data st0 = sim_run env 0"
    using initial_state_data [OF env] by blast
  then show ?case
    by (simp add: state_before_def recorded_def)
next
  case (Suc p)
  then obtain st where st: "state_before env p = Some st" "state_ok st"
    "sampling_step st = (p + 9) div 10" "data st = sim_run env p" "recorded env st"
    by auto
  have lt: "p < 2000"
    using Suc.prems by (simp add: SAMPLING_STEPS_def CONTROL_RATE_def)
  have s: "p mod CONTROL_RATE = 0 \<Longrightarrow> sampling_step st < SAMPLING_STEPS"
    using st(3) lt ticks_arith(1) [of p] by (simp add: SAMPLING_STEPS_def CONTROL_RATE_def)
  obtain st' where st': "loop_body env p st = Some st'" "state_ok st'"
    "sampling_step st' = (if p mod CONTROL_RATE = 0 then Suc (sampling_step st) else sampling_step st)"
    "data st' = mj_step env
         (if p mod CONTROL_RATE = 0
          then write_ctrl (control_at (inputs_final_at env (sampling_step st) (data st)) 0) (data st)
          else data st)"
    using loop_body_ok [OF env st(2) s] by blast
  note mem = loop_body_memories [OF env st(2) s st'(1)]
  have n: "sampling_step st' = (Suc p + 9) div 10"
    using st'(3) st(3) ticks_arith [of p] by (simp add: CONTROL_RATE_def split: if_splits)
  have b: "state_before env (Suc p) = Some st'"
    using st(1) st'(1) by (simp add: state_before_Suc)
  have d: "data st' = sim_run env (Suc p)"
  proof (cases "p mod CONTROL_RATE = 0")
    case True
    then have "sampling_step st = p div CONTROL_RATE"
      using st(3) ticks_arith(1) [of p] by (simp add: CONTROL_RATE_def)
    with True st'(4) st(4) show ?thesis
      by (simp add: Let_def)
  next
    case False
    with st'(4) st(4) show ?thesis
      by (simp add: Let_def)
  qed
  have r: "recorded env st'"
  proof (cases "p mod CONTROL_RATE = 0")
    case True
    let ?n = "sampling_step st"
    have k: "?n = p div 10" "p mod 10 = 0"
      using True st(3) ticks_arith(1) [of p] by (simp_all add: CONTROL_RATE_def)
    have td: "tick_data env ?n = data st"
      using tick_index [OF k(2)] by (simp add: tick_data_def k(1) CONTROL_RATE_def st(4))
    have len: "?n < length (x_pos_memory st)" "?n < length (cost_memory st)"
      "?n < length (single_time_set st)"
      using s [OF True] st(2) by (simp_all add: state_ok_def mem_ok_def)
    have new: "x_pos_memory st' ! ?n = xpos (tick_data env ?n) ! 9"
      "cost_memory st' ! ?n = [tick_cost env ?n]"
      "single_time_set st' ! ?n = [timer env ?n]"
      using mem True len by (simp_all add: td tick_cost_def Let_def)
    have old: "x_pos_memory st' ! j = x_pos_memory st ! j"
      "cost_memory st' ! j = cost_memory st ! j"
      "single_time_set st' ! j = single_time_set st ! j" if "j < ?n" for j
      using mem True that by simp_all
    show ?thesis
      unfolding recorded_def
    proof (intro allI impI)
      fix j
      assume "j < sampling_step st'"
      then have "j < ?n \<or> j = ?n"
        using st'(3) True by auto
      then show "x_pos_memory st' ! j = xpos (tick_data env j) ! 9
          \<and> cost_memory st' ! j = [tick_cost env j]
          \<and> single_time_set st' ! j = [timer env j]"
        using new old [of j] st(5) by (auto simp: recorded_def)
    qed
  next
    case False
    with mem st'(3) st(5) show ?thesis
      by (simp add: recorded_def)
  qed
  from b st'(2) n d r show ?case by blast
qed

lemma paths:
  "x_trag_path = RESULTS_SAVED_PATH @ ''/cost_collecting_sample_16/x_trag.npy''"
  "solving_time_path = RESULTS_SAVED_PATH @ ''/cost_collecting_sample_16/solving_time_diffusion_.npy''"
  "single_time_path = RESULTS_SAVED_PATH @ ''/cost_collecting_sample_16/single_time_diffusion_.npy''"
  "cost_path = RESULTS_SAVED_PATH @ ''/cost_collecting_sample_16/cost_.npy''"
  by (simp_all add: x_trag_path_def solving_time_path_def single_time_path_def cost_path_def
        figure_saving_path_def path_join_def RESULTS_SAVED_PATH_def)

lemma save_results_files:
  "save_results st t fs x_trag_path = Some (NpyArray (x_pos_memory st))"
  "save_results st t fs solving_time_path = Some (NpyScalar t)"
  "save_results st t fs single_time_path = Some (NpyArray (single_time_set st))"
  "save_results st t fs cost_path = Some (NpyScalar (np_sum (cost_memory st)))"
  by (simp_all add: save_results_def Let_def paths)

lemma np_sum_singletons: "np_sum (map (\<lambda>s. [f s]) [0..<n]) = (\<Sum>s<n. f s)"
  by (simp add: np_sum_def comp_def interv_sum_list_conv_sum_set_nat atLeast0LessThan)

lemma paths_distinct:
  "x_trag_path \<noteq> cost_path" "solving_time_path \<noteq> cost_path" "single_time_path \<noteq> cost_path"
  "x_trag_path \<noteq> solving_time_path" "x_trag_path \<noteq> single_time_path"
  "solving_time_path \<noteq> single_time_path"
  by (simp_all add: paths)

lemma save_results_eq:
  "save_results st t fs =
     fs(x_trag_path \<mapsto> NpyArray (x_pos_memory st),
        solving_time_path \<mapsto> NpyScalar t,
        single_time_path \<mapsto> NpyArray (single_time_set st),
        cost_path \<mapsto> NpyScalar (np_sum (cost_memory st)))"
  by (simp add: save_results_def Let_def)

text \<open>
  \<^bold>\<open>C3\<close> (as amended). After the control loop has finished, \<open>main\<close> writes four
  files into the directory \<^verbatim>\<open>cost_collecting_sample_16\<close> under \<open>RESULTS_SAVED_PATH\<close>.
  \<^verbatim>\<open>x_trag.npy\<close> holds the full \<open>(SAMPLING_STEPS, 3)\<close> array whose row \<open>s\<close> is the position
  of the end effector (body \<open>9\<close>) at sampling tick \<open>s\<close>. \<^verbatim>\<open>cost_.npy\<close> holds a single
  number, the sum over the ticks of the cost of the trajectory sampled there, and not the
  series of these costs. The other two files hold the time the loop took and the
  sampling time of every tick.
\<close>

theorem main_saves_trajectory_and_total_cost:
  assumes "env_ok env"
  shows "\<exists>st. main env delta_t fs =
         Some (st, fs(x_trag_path \<mapsto> NpyArray (x_pos_memory st),
                      solving_time_path \<mapsto> NpyScalar delta_t,
                      single_time_path \<mapsto> NpyArray (single_time_set st),
                      cost_path \<mapsto> NpyScalar (np_sum (cost_memory st))))
     \<and> control_loop env = Some st
     \<and> x_pos_memory st = map (\<lambda>s. xpos (tick_data env s) ! 9) [0..<SAMPLING_STEPS]
     \<and> list_all (\<lambda>r. length r = 3) (x_pos_memory st)
     \<and> cost_memory st = map (\<lambda>s. [tick_cost env s]) [0..<SAMPLING_STEPS]
     \<and> single_time_set st = map (\<lambda>s. [timer env s]) [0..<SAMPLING_STEPS]
     \<and> np_sum (cost_memory st) = (\<Sum>s<SAMPLING_STEPS. tick_cost env s)
     \<and> NpyScalar (np_sum (cost_memory st)) \<noteq> NpyArray (cost_memory st)
     \<and> NpyArray (x_pos_memory st) \<noteq> NpyArray (cost_memory st)
     \<and> x_trag_path = RESULTS_SAVED_PATH @ ''/cost_collecting_sample_16/x_trag.npy''
     \<and> cost_path = RESULTS_SAVED_PATH @ ''/cost_collecting_sample_16/cost_.npy''
     \<and> x_trag_path \<noteq> cost_path \<and> solving_time_path \<noteq> cost_path
     \<and> single_time_path \<noteq> cost_path"
proof -
  obtain st where st: "state_before env (SAMPLING_STEPS * CONTROL_RATE) = Some st" "state_ok st"
    "sampling_step st = (SAMPLING_STEPS * CONTROL_RATE + 9) div 10" "recorded env st"
    using state_before_recorded [OF assms, of "SAMPLING_STEPS * CONTROL_RATE"] by auto
  have cl: "control_loop env = Some st"
    using st(1) by (simp add: control_loop_state_before)
  have n: "sampling_step st = SAMPLING_STEPS"
    using st(3) by (simp add: SAMPLING_STEPS_def CONTROL_RATE_def)
  have len: "length (x_pos_memory st) = SAMPLING_STEPS" "length (cost_memory st) = SAMPLING_STEPS"
    "length (single_time_set st) = SAMPLING_STEPS"
    and w: "list_all (\<lambda>r. length r = 3) (x_pos_memory st)"
    using st(2) by (simp_all add: state_ok_def mem_ok_def)
  have x: "x_pos_memory st = map (\<lambda>s. xpos (tick_data env s) ! 9) [0..<SAMPLING_STEPS]"
    using st(4) len(1) by (auto simp: recorded_def n intro!: nth_equalityI)
  have c: "cost_memory st = map (\<lambda>s. [tick_cost env s]) [0..<SAMPLING_STEPS]"
    using st(4) len(2) by (auto simp: recorded_def n intro!: nth_equalityI)
  have t: "single_time_set st = map (\<lambda>s. [timer env s]) [0..<SAMPLING_STEPS]"
    using st(4) len(3) by (auto simp: recorded_def n intro!: nth_equalityI)
  have sum: "np_sum (cost_memory st) = (\<Sum>s<SAMPLING_STEPS. tick_cost env s)"
    by (simp only: c np_sum_singletons)
  have "length (x_pos_memory st ! 0) = 3"
    using w len(1) by (simp add: list_all_length SAMPLING_STEPS_def)
  moreover have "length (cost_memory st ! 0) = 1"
    by (simp add: c SAMPLING_STEPS_def)
  ultimately have ne: "x_pos_memory st \<noteq> cost_memory st"
    by auto
  have m: "main env delta_t fs = Some (st, save_results st delta_t fs)"
    by (simp add: main_def cl)
  show ?thesis
    using m cl x w c t sum ne paths(1,4) paths_distinct(1,2,3)
    by (intro exI [of _ st]) (simp add: save_results_eq)
qed


lemma toy_tick_0: "xpos (tick_data toy_env 0) ! 9 = [0, 0, 0]"
  by code_simp

lemma toy_tick_1: "xpos (tick_data toy_env (Suc 0)) ! 9 = [0, 1, 2]"
  by code_simp

theorem main_saves_trajectory_and_total_cost_witness:
  "env_ok toy_env
   \<and> (\<exists>st. main toy_env 1 Map.empty =
         Some (st, [x_trag_path \<mapsto> NpyArray (x_pos_memory st),
                    solving_time_path \<mapsto> NpyScalar 1,
                    single_time_path \<mapsto> NpyArray (single_time_set st),
                    cost_path \<mapsto> NpyScalar (np_sum (cost_memory st))])
        \<and> length (x_pos_memory st) = 200
        \<and> x_pos_memory st ! 0 = [0, 0, 0] \<and> x_pos_memory st ! 1 = [0, 1, 2]
        \<and> cost_memory st ! 1 = [tick_cost toy_env 1]
        \<and> np_sum (cost_memory st) = (\<Sum>s<200. tick_cost toy_env s))"
proof -
  obtain st where a: "main toy_env 1 Map.empty =
         Some (st, [x_trag_path \<mapsto> NpyArray (x_pos_memory st),
                    solving_time_path \<mapsto> NpyScalar 1,
                    single_time_path \<mapsto> NpyArray (single_time_set st),
                    cost_path \<mapsto> NpyScalar (np_sum (cost_memory st))])"
    and x: "x_pos_memory st = map (\<lambda>s. xpos (tick_data toy_env s) ! 9) [0..<SAMPLING_STEPS]"
    and c: "cost_memory st = map (\<lambda>s. [tick_cost toy_env s]) [0..<SAMPLING_STEPS]"
    and s: "np_sum (cost_memory st) = (\<Sum>s<SAMPLING_STEPS. tick_cost toy_env s)"
    using main_saves_trajectory_and_total_cost [OF toy_env_ok, of 1 Map.empty] by blast
  have "length (x_pos_memory st) = 200" "x_pos_memory st ! 0 = [0, 0, 0]"
    "x_pos_memory st ! 1 = [0, 1, 2]" "cost_memory st ! 1 = [tick_cost toy_env 1]"
    by (simp_all add: x c SAMPLING_STEPS_def toy_tick_0 toy_tick_1)
  with a s toy_env_ok show ?thesis
    by (auto simp: SAMPLING_STEPS_def)
qed

lemma np_sum_ones: "np_sum (replicate n [1]) = real n"
  by (induction n) (simp_all add: np_sum_def)

text \<open>
  The specification has the per-tick cost series saved too. After a run whose 200
  costs were all \<open>1\<close>, the file \<^verbatim>\<open>cost_.npy\<close> holds the number \<open>200\<close>, and none of the
  four files written holds the series.
\<close>

theorem cost_series_not_saved:
  "save_results ones_final 1 Map.empty cost_path = Some (NpyScalar 200)
   \<and> save_results ones_final 1 Map.empty cost_path \<noteq> Some (NpyArray (cost_memory ones_final))
   \<and> save_results ones_final 1 Map.empty x_trag_path \<noteq> Some (NpyArray (cost_memory ones_final))
   \<and> save_results ones_final 1 Map.empty single_time_path \<noteq> Some (NpyArray (cost_memory ones_final))
   \<and> save_results ones_final 1 Map.empty solving_time_path \<noteq> Some (NpyArray (cost_memory ones_final))
   \<and> dom (save_results ones_final 1 Map.empty)
       = {x_trag_path, solving_time_path, single_time_path, cost_path}"
proof -
  have c: "cost_memory ones_final = replicate 200 [1]"
    and x: "x_pos_memory ones_final = replicate 200 [3 / 10, 3 / 10, 1 / 2]"
    and s: "single_time_set ones_final = replicate 200 [1 / 100]"
    by (simp_all add: ones_final_def)
  have r: "replicate 200 a = replicate 200 b \<longleftrightarrow> a = b" for a b :: "real list"
    by (simp add: replicate_eq_replicate)
  have d: "dom (save_results ones_final 1 Map.empty)
       = {x_trag_path, solving_time_path, single_time_path, cost_path}"
    by (auto simp: save_results_def Let_def)
  show ?thesis
    using np_sum_ones [of 200]
    by (simp add: save_results_files c x s r d)
qed

section \<open>Properties of the network\<close>

lemma linear_apply_Some:
  assumes "is_linear n m L" "tshape x \<noteq> []" "last (tshape x) = n"
  shows "\<exists>y. linear_apply L x = Some y \<and> tshape y = butlast (tshape x) @ [m]
     \<and> length (tdata y) = rows_count x * m"
proof -
  have "length (concat (map (\<lambda>i. map2 (\<lambda>w b. dot w (f i) + b) (weight L) (bias L)) js))
      = length js * m" for f :: "nat \<Rightarrow> real list" and js :: "nat list"
    using assms(1) by (induction js) (simp_all add: is_linear_def)
  then show ?thesis
    using assms by (simp add: linear_apply_def is_linear_def Let_def)
qed

lemma linear_apply_None:
  assumes "is_linear n m L" "tshape x = [] \<or> last (tshape x) \<noteq> n"
  shows "linear_apply L x = None"
  using assms by (auto simp: linear_apply_def is_linear_def)

lemma tshape_tanh: "tshape (tensor_tanh x) = tshape x"
  by (simp add: tensor_tanh_def)

lemma length_tdata_tanh: "length (tdata (tensor_tanh x)) = length (tdata x)"
  by (simp add: tensor_tanh_def)

lemma rows_count_snoc: "rows_count (x\<lparr>tshape := ds @ [m]\<rparr>) = prod_list ds"
  by (simp add: rows_count_def)

lemma hidden_layers:
  assumes net: "is_AMPCNet n_in n_out net" and x: "tshape x \<noteq> []" "last (tshape x) = n_in"
  shows "\<exists>y. forward net x = view_as y [512, 8, 1]
     \<and> tshape y = butlast (tshape x) @ [n_out]
     \<and> length (tdata y) = rows_count x * n_out"
proof -
  let ?ds = "butlast (tshape x)"
  have L: "is_linear n_in 2 (hidden1 net)" "is_linear 2 50 (hidden2 net)"
    "is_linear 50 50 (hidden3 net)" "is_linear 50 n_out (output_layer net)"
    using net by (simp_all add: is_AMPCNet_def)
  obtain y1 where y1: "linear_apply (hidden1 net) x = Some y1" "tshape y1 = ?ds @ [2]"
    using linear_apply_Some [OF L(1) x] by blast
  let ?t1 = "tensor_tanh y1"
  have t1: "tshape ?t1 \<noteq> []" "last (tshape ?t1) = 2" "butlast (tshape ?t1) = ?ds"
    by (simp_all add: tshape_tanh y1)
  obtain y2 where y2: "linear_apply (hidden2 net) ?t1 = Some y2" "tshape y2 = ?ds @ [50]"
    using linear_apply_Some [OF L(2) t1(1,2)] t1(3) by auto
  let ?t2 = "tensor_tanh y2"
  have t2: "tshape ?t2 \<noteq> []" "last (tshape ?t2) = 50" "butlast (tshape ?t2) = ?ds"
    by (simp_all add: tshape_tanh y2)
  obtain y3 where y3: "linear_apply (hidden3 net) ?t2 = Some y3" "tshape y3 = ?ds @ [50]"
    using linear_apply_Some [OF L(3) t2(1,2)] t2(3) by auto
  let ?t3 = "tensor_tanh y3"
  have t3: "tshape ?t3 \<noteq> []" "last (tshape ?t3) = 50" "butlast (tshape ?t3) = ?ds"
    "rows_count ?t3 = rows_count x"
    by (simp_all add: tshape_tanh y3 rows_count_def)
  obtain y4 where y4: "linear_apply (output_layer net) ?t3 = Some y4"
    "tshape y4 = ?ds @ [n_out]" "length (tdata y4) = rows_count x * n_out"
    using linear_apply_Some [OF L(4) t3(1,2)] t3(3,4) by auto
  have "forward net x = view_as y4 [512, 8, 1]"
    by (simp add: forward_def Let_def y1 y2 y3 y4)
  with y4 show ?thesis by blast
qed

lemma forward_first_layer_fails:
  assumes "is_AMPCNet n_in n_out net" "tshape x = [] \<or> last (tshape x) \<noteq> n_in"
  shows "forward net x = None"
proof -
  have "linear_apply (hidden1 net) x = None"
    using linear_apply_None [of n_in 2 "hidden1 net" x] assms by (simp add: is_AMPCNet_def)
  then show ?thesis
    by (simp add: forward_def)
qed

text \<open>
  \<^bold>\<open>C8.\<close> The forward pass of the network trained (4 inputs, 8 outputs) returns only
  when the result of the output layer has \<open>512 * 8\<close> entries, since it is viewed as
  \<open>(512, 8, 1)\<close>. For an input that is not of exactly 512 rows it raises; for an input of
  shape \<open>(512, 4)\<close> it returns a tensor of shape \<open>(512, 8, 1)\<close>.
\<close>

theorem forward_needs_512_rows:
  assumes "is_AMPCNet input_size output_size net"
  shows "(rows_count x \<noteq> 512 \<longrightarrow> forward net x = None)
     \<and> (tshape x = [512, input_size] \<longrightarrow>
          (\<exists>y. forward net x = Some y \<and> tshape y = [512, 8, 1] \<and> length (tdata y) = 512 * 8))
     \<and> (\<forall>y. forward net x = Some y \<longrightarrow>
          tshape y = [512, 8, 1] \<and> rows_count x * output_size = 512 * 8
          \<and> tshape x \<noteq> [] \<and> last (tshape x) = input_size)"
proof (cases "tshape x \<noteq> [] \<and> last (tshape x) = input_size")
  case False
  then have "forward net x = None"
    using forward_first_layer_fails [OF assms, of x] by blast
  moreover have "tshape x \<noteq> [512, input_size]"
    using False by auto
  ultimately show ?thesis by simp
next
  case True
  then obtain y where y: "forward net x = view_as y [512, 8, 1]"
    "tshape y = butlast (tshape x) @ [output_size]"
    "length (tdata y) = rows_count x * output_size"
    using hidden_layers [OF assms, of x] by blast
  have p: "prod_list (tshape y) = rows_count x * 8"
    by (simp add: y(2) rows_count_def output_size_def)
  show ?thesis
  proof (cases "rows_count x = 512")
    case r: True
    have "forward net x = Some (y\<lparr>tshape := [512, 8, 1]\<rparr>)"
      by (simp add: y(1) view_as_def p r)
    then show ?thesis
      using True r y(3) by (simp add: output_size_def)
  next
    case r: False
    have "forward net x = None"
      using r by (simp add: y(1) view_as_def p)
    moreover have "tshape x \<noteq> [512, input_size]"
      using r by (auto simp: rows_count_def)
    ultimately show ?thesis
      using r by simp
  qed
qed


lemma toy_net_ok: "is_AMPCNet input_size output_size toy_net"
  by (simp add: is_AMPCNet_def is_linear_def toy_net_def const_linear_def input_size_def
        output_size_def list_all_length)

theorem forward_needs_512_rows_witness:
  "is_AMPCNet input_size output_size toy_net
   \<and> rows_count batch_100 \<noteq> 512 \<and> forward toy_net batch_100 = None
   \<and> tshape batch_512 = [512, input_size]
   \<and> (\<exists>y. forward toy_net batch_512 = Some y \<and> tshape y = [512, 8, 1])"
proof -
  have a: "rows_count batch_100 \<noteq> 512"
    by (simp add: rows_count_def batch_100_def)
  have b: "tshape batch_512 = [512, input_size]"
    by (simp add: batch_512_def input_size_def)
  show ?thesis
    using forward_needs_512_rows [OF toy_net_ok, of batch_100]
      forward_needs_512_rows [OF toy_net_ok, of batch_512] toy_net_ok a b
    by auto
qed

section \<open>Properties of the training loop\<close>

text \<open>Tensors of one shape are combined entry by entry; the shapes alone decide
  whether the combination returns.\<close>

lemma broadcast_rev_same: "broadcast_rev s s = Some s"
  by (induction s) simp_all

lemma broadcast_shapes_same: "broadcast_shapes s s = Some s"
  by (simp add: broadcast_shapes_def broadcast_rev_same)

lemma length_unravel: "length (unravel s k) = length s"
  by (induction s arbitrary: k) simp_all

lemma prod_list_pos: "(k::nat) < d * prod_list ds \<Longrightarrow> 0 < prod_list ds"
  by (cases "prod_list ds") auto

lemma unravel_clamp:
  "k < prod_list s \<Longrightarrow>
   map2 (\<lambda>d i. if d = 1 then 0 else i) s (unravel s k) = unravel s k"
proof (induction s arbitrary: k)
  case Nil
  then show ?case by simp
next
  case (Cons d ds)
  have p: "0 < prod_list ds"
    using Cons.prems prod_list_pos [of k d ds] by simp
  have "k mod prod_list ds < prod_list ds"
    using p by simp
  then have t: "map2 (\<lambda>d i. if d = 1 then 0 else i) ds (unravel ds (k mod prod_list ds))
      = unravel ds (k mod prod_list ds)"
    by (rule Cons.IH)
  have "d = 1 \<Longrightarrow> k div prod_list ds = 0"
    using Cons.prems by simp
  then show ?case
    using t by auto
qed

lemma ravel_unravel: "k < prod_list s \<Longrightarrow> ravel s (unravel s k) = k"
proof (induction s arbitrary: k)
  case Nil
  then show ?case by simp
next
  case (Cons d ds)
  have p: "0 < prod_list ds"
    using Cons.prems prod_list_pos [of k d ds] by simp
  have "ravel ds (unravel ds (k mod prod_list ds)) = k mod prod_list ds"
    using p by (intro Cons.IH) simp
  then show ?case
    by simp
qed

lemma expand_get_same:
  "k < prod_list (tshape t) \<Longrightarrow> expand_get t (tshape t) k = tdata t ! k"
  using unravel_clamp [of k "tshape t"] ravel_unravel [of k "tshape t"]
  by (simp add: expand_get_def)

lemma tensor_map2_same:
  assumes "tshape a = tshape b" "length (tdata a) = prod_list (tshape a)"
    "length (tdata b) = prod_list (tshape b)"
  shows "tensor_map2 f a b = Some \<lparr>tshape = tshape a, tdata = map2 f (tdata a) (tdata b)\<rparr>"
proof -
  let ?n = "prod_list (tshape a)"
  have "map (\<lambda>k. f (expand_get a (tshape a) k) (expand_get b (tshape a) k)) [0..<?n]
      = map2 f (tdata a) (tdata b)"
    using assms expand_get_same [of _ a] expand_get_same [of _ b]
    by (auto intro!: nth_equalityI)
  then show ?thesis
    using assms(1) by (simp add: tensor_map2_def broadcast_shapes_same [of "tshape b"])
qed

lemma tensor_map2_same_shape:
  "tshape a = tshape b \<Longrightarrow> \<exists>r. tensor_map2 f a b = Some r"
  by (simp add: tensor_map2_def broadcast_shapes_same)

lemma update_model_average_total:
  "\<exists>r. update_model_average beta (tensors sh a) (tensors sh b) = Some r"
proof (induction sh arbitrary: a b)
  case Nil
  show ?case by (simp add: tensors_def)
next
  case (Cons s sh)
  show ?case
  proof (cases a)
    case Nil
    then show ?thesis by (simp add: tensors_def)
  next
    case a: (Cons x xs)
    show ?thesis
    proof (cases b)
      case Nil
      then show ?thesis by (simp add: tensors_def a)
    next
      case b: (Cons y ys)
      obtain w where w: "update_average beta (Some \<lparr>tshape = s, tdata = x\<rparr>)
          \<lparr>tshape = s, tdata = y\<rparr> = Some w"
        using tensor_map2_same_shape [of "\<lparr>tshape = s, tdata = x\<rparr>" "\<lparr>tshape = s, tdata = y\<rparr>"]
        by (auto simp: update_average_def)
      obtain r where "update_model_average beta (tensors sh xs) (tensors sh ys) = Some r"
        using Cons.IH by blast
      then show ?thesis
        using w Cons.IH [of xs ys] by (auto simp: tensors_def a b)
    qed
  qed
qed

lemma update_model_average_rule:
  "params_ok sh a \<Longrightarrow> params_ok sh b \<Longrightarrow>
   update_model_average beta (tensors sh a) (tensors sh b)
     = Some (tensors sh (average_rule beta a b))"
proof (induction sh arbitrary: a b)
  case Nil
  then show ?case by (simp add: tensors_def params_ok_def average_rule_def)
next
  case (Cons s sh)
  from Cons.prems obtain x xs y ys where a: "a = x # xs" and b: "b = y # ys"
    and l: "length x = prod_list s" "length y = prod_list s"
    and r: "params_ok sh xs" "params_ok sh ys"
    by (auto simp: params_ok_def list_all2_Cons1)
  have w: "update_average beta (Some \<lparr>tshape = s, tdata = x\<rparr>) \<lparr>tshape = s, tdata = y\<rparr>
      = Some \<lparr>tshape = s, tdata = map2 (\<lambda>a b. a * beta + (1 - beta) * b) x y\<rparr>"
    using tensor_map2_same [of "\<lparr>tshape = s, tdata = x\<rparr>" "\<lparr>tshape = s, tdata = y\<rparr>"] l
    by (simp add: update_average_def)
  have ih: "update_model_average beta (tensors sh xs) (tensors sh ys)
      = Some (tensors sh (average_rule beta xs ys))"
    using r by (rule Cons.IH)
  show ?case
    using w ih by (simp add: a b tensors_def average_rule_def)
qed

lemma params_ok_length: "params_ok sh a \<Longrightarrow> length a = length sh"
  by (simp add: params_ok_def list_all2_lengthD)

lemma tdata_tensors: "length a = length sh \<Longrightarrow> map tdata (tensors sh a) = a"
  by (auto simp: tensors_def intro!: nth_equalityI)

lemma params_ok_average:
  "params_ok sh a \<Longrightarrow> params_ok sh b \<Longrightarrow> params_ok sh (average_rule beta a b)"
  by (auto simp: params_ok_def average_rule_def list_all2_conv_all_nth)

lemma ema_update_rule:
  assumes "params_ok sh e" "params_ok sh m"
  shows "ema_update steps sh e m
     = Some (average_rule ema_decay (if steps < step_start_ema then m else e) m)"
proof -
  let ?e = "if steps < step_start_ema then m else e"
  have ok: "params_ok sh ?e"
    using assms by simp
  have "length (average_rule ema_decay ?e m) = length sh"
    using params_ok_length [OF params_ok_average [OF ok assms(2)]] .
  then show ?thesis
    using update_model_average_rule [OF ok assms(2), of ema_decay]
    by (simp add: ema_update_def Let_def tdata_tensors)
qed

lemma ema_update_total: "\<exists>r. ema_update steps sh e m = Some r"
  using update_model_average_total [of ema_decay sh "if steps < step_start_ema then m else e" m]
  by (auto simp: ema_update_def Let_def)

lemma update_average_broadcasts:
  "update_average (1 / 2) (Some tensor_2) tensor_1 = Some \<lparr>tshape = [2], tdata = [3, 4]\<rparr>"
  "update_average (1 / 2) (Some tensor_3) tensor_2 = None"
  "update_average (1 / 2) (Some tensor_2x1) tensor_3
     = Some \<lparr>tshape = [2, 3], tdata = [11 / 2, 6, 13 / 2, 21 / 2, 11, 23 / 2]\<rparr>"
  by code_simp+


lemma train_step_steps:
  "train_step env e b st = Some st' \<Longrightarrow> train_steps_current st' = Suc (train_steps_current st)"
  by (auto simp: train_step_def Let_def split: bind_splits if_splits option.splits prod.splits)

lemma for_loop_train_steps:
  "for_loop (train_step env e) bs st = Some st' \<Longrightarrow>
   train_steps_current st' = train_steps_current st + length bs"
proof (induction bs arbitrary: st)
  case Nil
  then show ?case by simp
next
  case (Cons b bs)
  then obtain st1 where a: "train_step env e b st = Some st1"
    and b: "for_loop (train_step env e) bs st1 = Some st'"
    by (auto split: bind_splits)
  show ?case
    using Cons.IH [OF b] train_step_steps [OF a] by simp
qed

lemma batch_loop_drops_last:
  "k + length bs + 1 = n \<Longrightarrow>
   batch_loop env e n (zip [k..<k + length bs + 1] (bs @ [b])) st
     = for_loop (train_step env e) bs st"
proof (induction bs arbitrary: k st)
  case Nil
  then show ?case by (auto simp: upt_rec)
next
  case (Cons x bs)
  have l: "[k..<k + length (x # bs) + 1] = k # [Suc k..<Suc k + length bs + 1]"
    by (simp add: upt_rec)
  have ne: "int k \<noteq> int n - 1"
    using Cons.prems by auto
  have ih: "batch_loop env e n (zip [Suc k..<Suc k + length bs + 1] (bs @ [b])) s
      = for_loop (train_step env e) bs s" for s
    using Cons.prems by (intro Cons.IH) simp
  show ?case
    unfolding l using ne ih
    by (auto simp: stop_training_def max_steps_def split: bind_splits simp del: upt_Suc)
qed

lemma run_epoch_butlast:
  assumes "dl \<noteq> []"
  shows "run_epoch env e dl st = for_loop (train_step env e) (butlast dl) st"
proof -
  obtain bs b where dl: "dl = bs @ [b]"
    using assms by (metis append_butlast_last_id)
  show ?thesis
    using batch_loop_drops_last [of 0 bs "length dl" env e b st]
    by (simp add: run_epoch_def dl)
qed

lemma train_step_total:
  assumes "never_fails env"
  shows "\<exists>st'. train_step env e b st = Some st'"
proof -
  obtain opt m where o: "optimise env (optim st, model_params st) b = Some (opt, m)"
    using assms by (fastforce simp: never_fails_def)
  have s: "summary_returns env n p" and c: "checkpoint_returns env k n" for n p k
    using assms by (simp_all add: never_fails_def)
  obtain ema where ema:
    "(case ema_model st of
        None \<Rightarrow> Some None
      | Some e \<Rightarrow>
          if train_steps_current st mod update_ema_every = 0
          then map_option Some (ema_update (train_steps_current st) (param_shapes st) e m)
          else Some (Some e)) = Some ema"
  proof (cases "ema_model st")
    case None
    with that show ?thesis by simp
  next
    case (Some em)
    obtain r where "ema_update (train_steps_current st) (param_shapes st) em m = Some r"
      using ema_update_total by blast
    with Some that show ?thesis
      by (cases "train_steps_current st mod update_ema_every = 0") simp_all
  qed
  show ?thesis
    by (simp add: train_step_def o ema s c Let_def split: option.splits)
qed

lemma for_loop_train_total:
  assumes "never_fails env"
  shows "\<exists>st'. for_loop (train_step env e) bs st = Some st'"
proof (induction bs arbitrary: st)
  case Nil
  show ?case by simp
next
  case (Cons b bs)
  obtain st1 where "train_step env e b st = Some st1"
    using train_step_total [OF assms] by blast
  with Cons.IH [of st1] show ?case by simp
qed

text \<open>
  \<^bold>\<open>C9.\<close> An epoch over a data loader of at least one batch processes all its batches
  but the last, in their order: the inner loop breaks when \<open>step\<close> is
  \<open>len(train_dataloader) - 1\<close>, so the last batch reaches neither a loss nor an optimizer
  step, and an epoch that completes has increased \<open>train_steps_current\<close> by exactly
  \<open>len(train_dataloader) - 1\<close> (\<open>max_steps\<close> is \<open>None\<close>). Where nothing raises, the epoch
  completes.
\<close>

text \<open>
  \<^bold>\<open>C9.\<close> An epoch over a data loader of at least one batch processes all its batches
  but the last, in their order: the inner loop breaks when \<open>step\<close> is
  \<open>len(train_dataloader) - 1\<close>, so the last batch reaches neither a loss nor an optimizer
  step, and an epoch that completes has increased \<open>train_steps_current\<close> by exactly
  \<open>len(train_dataloader) - 1\<close> (\<open>max_steps\<close> is \<open>None\<close>). Where nothing raises, the epoch
  completes.
\<close>

theorem epoch_drops_last_batch:
  assumes "train_dataloader \<noteq> []"
  shows "run_epoch env epoch train_dataloader st
       = for_loop (train_step env epoch) (butlast train_dataloader) st
     \<and> length (butlast train_dataloader) = length train_dataloader - 1
     \<and> (\<forall>st'. run_epoch env epoch train_dataloader st = Some st' \<longrightarrow>
          int (train_steps_current st')
            = int (train_steps_current st) + (int (length train_dataloader) - 1))
     \<and> (never_fails env \<longrightarrow> (\<exists>st'. run_epoch env epoch train_dataloader st = Some st'))"
proof -
  have a: "run_epoch env epoch train_dataloader st
       = for_loop (train_step env epoch) (butlast train_dataloader) st"
    by (rule run_epoch_butlast [OF assms])
  have b: "int (train_steps_current st')
            = int (train_steps_current st) + (int (length train_dataloader) - 1)"
    if "run_epoch env epoch train_dataloader st = Some st'" for st'
    using for_loop_train_steps [of env epoch "butlast train_dataloader" st st'] that a assms
    by (simp add: of_nat_diff Suc_leI)
  have c: "\<exists>st'. run_epoch env epoch train_dataloader st = Some st'" if "never_fails env"
    using for_loop_train_total [OF that, of epoch "butlast train_dataloader" st] a by simp
  show ?thesis
    using a b c by simp
qed

lemma toy_never_fails: "never_fails toy_train_env"
  by (simp add: never_fails_def toy_train_env_def)

lemma toy_two_steps:
  "for_loop (train_step toy_train_env 0) [1, 2] toy_start
     = Some \<lparr>param_shapes = [[1, 2], [1]], model_params = [[7 / 10, 17 / 10], [27 / 10]],
             ema_model = Some [[9 / 10, 19 / 10], [29 / 10]], optim = 2,
             train_steps_current = 2\<rparr>"
  by (simp add: train_step_def toy_train_env_def toy_start_def Let_def steps_til_summary_def
        steps_til_checkpoint_def update_ema_every_def step_start_ema_def ema_update_rule
        params_ok_def average_rule_def ema_decay_def)

theorem epoch_drops_last_batch_witness:
  "[1, 2, 3 :: real] \<noteq> []
   \<and> run_epoch toy_train_env 0 [1, 2, 3] toy_start
       = Some \<lparr>param_shapes = [[1, 2], [1]], model_params = [[7 / 10, 17 / 10], [27 / 10]],
               ema_model = Some [[9 / 10, 19 / 10], [29 / 10]], optim = 2,
               train_steps_current = 2\<rparr>"
proof -
  have h: "[1, 2, 3 :: real] \<noteq> []"
    by simp
  have "run_epoch toy_train_env 0 [1, 2, 3] toy_start
       = for_loop (train_step toy_train_env 0) [1, 2] toy_start"
    using epoch_drops_last_batch [OF h, of toy_train_env 0 toy_start]
    by (simp del: for_loop.simps)
  with toy_two_steps h show ?thesis
    by (simp del: for_loop.simps)
qed

lemma train_step_parts:
  assumes "train_step env epoch batch st = Some st'"
  shows "\<exists>opt m ema. optimise env (optim st, model_params st) batch = Some (opt, m)
     \<and> (case ema_model st of
          None \<Rightarrow> Some None
        | Some e \<Rightarrow>
            if train_steps_current st mod update_ema_every = 0
            then map_option Some (ema_update (train_steps_current st) (param_shapes st) e m)
            else Some (Some e)) = Some ema
     \<and> st' = st\<lparr>model_params := m, ema_model := ema, optim := opt,
                  train_steps_current := train_steps_current st + 1\<rparr>"
  using assms
  by (auto simp: train_step_def Let_def split: bind_splits if_splits option.splits prod.splits)

lemma train_step_ema:
  assumes step: "train_step env epoch batch st = Some st'"
    and e: "ema_model st = Some e" "params_ok (param_shapes st) e"
    and m: "params_ok (param_shapes st) (model_params st')"
  shows "ema_model st' =
     Some (if train_steps_current st mod update_ema_every = 0
           then average_rule ema_decay
                  (if train_steps_current st < step_start_ema then model_params st' else e)
                  (model_params st')
           else e)"
proof -
  obtain opt mp ema where p:
    "(if train_steps_current st mod update_ema_every = 0
      then map_option Some (ema_update (train_steps_current st) (param_shapes st) e mp)
      else Some (Some e)) = Some ema"
    "st' = st\<lparr>model_params := mp, ema_model := ema, optim := opt,
                 train_steps_current := train_steps_current st + 1\<rparr>"
    using train_step_parts [OF step] e(1) by auto
  have mp: "model_params st' = mp" and em: "ema_model st' = ema"
    by (simp_all add: p(2))
  have "params_ok (param_shapes st) mp"
    using m mp by simp
  then have "ema_update (train_steps_current st) (param_shapes st) e mp
      = Some (average_rule ema_decay
                (if train_steps_current st < step_start_ema then mp else e) mp)"
    using ema_update_rule [OF e(2)] by simp
  with p(1) show ?thesis
    by (auto simp: mp em split: if_splits)
qed

lemma params_ok_lengths:
  assumes "params_ok sh m" "list_all2 (\<lambda>d d'. length d = length d') m m'"
  shows "params_ok sh m'"
  using assms by (auto simp: params_ok_def list_all2_conv_all_nth)

lemma train_step_form:
  assumes k: "keeps_lengths env" and f: "state_form st"
    and step: "train_step env epoch batch st = Some st'"
  shows "state_form st' \<and> param_shapes st' = param_shapes st"
proof -
  obtain e where e: "ema_model st = Some e" "params_ok (param_shapes st) e"
    and mo: "params_ok (param_shapes st) (model_params st)"
    using f by (auto simp: state_form_def split: option.splits)
  obtain opt mp ema where p:
    "optimise env (optim st, model_params st) batch = Some (opt, mp)"
    "st' = st\<lparr>model_params := mp, ema_model := ema, optim := opt,
                 train_steps_current := train_steps_current st + 1\<rparr>"
    using train_step_parts [OF step] by blast
  have "list_all2 (\<lambda>d d'. length d = length d') (model_params st) mp"
    using k p(1) by (fastforce simp: keeps_lengths_def)
  then have mp: "params_ok (param_shapes st) (model_params st')"
    using params_ok_lengths [OF mo] by (simp add: p(2))
  have sh: "param_shapes st' = param_shapes st"
    by (simp add: p(2))
  have "ema_model st' =
     Some (if train_steps_current st mod update_ema_every = 0
           then average_rule ema_decay
                  (if train_steps_current st < step_start_ema then model_params st' else e)
                  (model_params st')
           else e)"
    by (rule train_step_ema [OF step e mp])
  moreover have "params_ok (param_shapes st)
      (average_rule ema_decay
         (if train_steps_current st < step_start_ema then model_params st' else e)
         (model_params st'))"
    using e(2) mp by (intro params_ok_average) simp_all
  ultimately show ?thesis
    using mp e(2) by (simp add: state_form_def sh)
qed

lemma pair_loop_form:
  assumes k: "keeps_lengths env"
  shows "state_form st \<Longrightarrow>
     for_loop (\<lambda>(epoch, batch). train_step env epoch batch) xs st = Some st' \<Longrightarrow>
     state_form st' \<and> param_shapes st' = param_shapes st
     \<and> train_steps_current st' = train_steps_current st + length xs"
proof (induction xs arbitrary: st)
  case Nil
  then show ?case by simp
next
  case (Cons x xs)
  obtain epoch batch where x: "x = (epoch, batch)"
    by (cases x)
  from Cons.prems(2) obtain st1 where a: "train_step env epoch batch st = Some st1"
    and b: "for_loop (\<lambda>(epoch, batch). train_step env epoch batch) xs st1 = Some st'"
    by (auto simp: x split: bind_splits)
  have f1: "state_form st1" "param_shapes st1 = param_shapes st"
    using train_step_form [OF k Cons.prems(1) a] by simp_all
  show ?case
    using Cons.IH [OF f1(1) b] f1(2) train_step_steps [OF a] by simp
qed

lemma pair_loop_epoch:
  "for_loop (\<lambda>(epoch, batch). train_step env epoch batch) (map (Pair e) bs) st
     = for_loop (train_step env e) bs st"
  by (induction bs arbitrary: st) (auto split: bind_splits)

lemma run_epoch_all:
  "run_epoch env e dl st = for_loop (train_step env e) (butlast dl) st"
proof (cases "dl = []")
  case True
  then show ?thesis by (simp add: run_epoch_def)
next
  case False
  then show ?thesis by (rule run_epoch_butlast)
qed

lemma epoch_loop_flat:
  "epoch_loop env dl es st
     = for_loop (\<lambda>(epoch, batch). train_step env epoch batch)
         (concat (map (\<lambda>epoch. map (Pair epoch) (butlast (dl epoch))) es)) st"
proof (induction es arbitrary: st)
  case Nil
  show ?case by simp
next
  case (Cons e es)
  show ?case
    by (simp add: for_loop_append pair_loop_epoch run_epoch_all Cons.IH max_steps_def
          del: for_loop.simps)
qed


lemma training_flat:
  assumes t: "training env dl st0 = Some stf" and k: "keeps_lengths env"
    and f: "state_form st0"
  shows "\<exists>st e. for_loop (\<lambda>(epoch, batch). train_step env epoch batch) (processed dl) st0
         = Some st
     \<and> train_steps_current st = train_steps_current st0 + length (processed dl)
     \<and> ema_model st = Some e
     \<and> stf = st\<lparr>ema_model :=
         Some (average_rule ema_decay
                 (if train_steps_current st < step_start_ema then model_params st else e)
                 (model_params st))\<rparr>"
proof -
  from t obtain st ema where
    a: "epoch_loop env dl [0..<epochs] st0 = Some st"
    and b: "(case ema_model st of
               None \<Rightarrow> Some None
             | Some e \<Rightarrow>
                 map_option Some
                   (ema_update (train_steps_current st) (param_shapes st) e (model_params st)))
            = Some ema"
    and c: "stf = st\<lparr>ema_model := ema\<rparr>"
    by (auto simp: training_def Let_def split: bind_splits if_splits)
  have l: "for_loop (\<lambda>(epoch, batch). train_step env epoch batch) (processed dl) st0 = Some st"
    using a by (simp add: epoch_loop_flat processed_def)
  have i: "state_form st" "train_steps_current st = train_steps_current st0 + length (processed dl)"
    using pair_loop_form [OF k f l] by simp_all
  obtain e where e: "ema_model st = Some e" "params_ok (param_shapes st) e"
    and m: "params_ok (param_shapes st) (model_params st)"
    using i(1) by (auto simp: state_form_def split: option.splits)
  have "ema = Some (average_rule ema_decay
                 (if train_steps_current st < step_start_ema then model_params st else e)
                 (model_params st))"
    using b ema_update_rule [OF e(2) m, of "train_steps_current st"] by (auto simp: e(1))
  with l i(2) e(1) c show ?thesis by blast
qed

lemma batch_loop_total:
  assumes "never_fails env"
  shows "\<exists>st'. batch_loop env e n xs st = Some st'"
proof (induction xs arbitrary: st)
  case Nil
  show ?case by simp
next
  case (Cons x xs)
  obtain step b where x: "x = (step, b)"
    by (cases x)
  obtain st1 where "train_step env e b st = Some st1"
    using train_step_total [OF assms] by blast
  with Cons.IH [of st1] show ?case
    by (simp add: x)
qed

lemma epoch_loop_total:
  assumes "never_fails env"
  shows "\<exists>st'. epoch_loop env dl es st = Some st'"
proof (induction es arbitrary: st)
  case Nil
  show ?case by simp
next
  case (Cons e es)
  obtain st1 where "run_epoch env e (dl e) st = Some st1"
    using batch_loop_total [OF assms] by (fastforce simp: run_epoch_def)
  with Cons.IH [of st1] show ?case
    by simp
qed

lemma training_total:
  assumes "never_fails env"
  shows "\<exists>st'. training env dl st = Some st'"
proof -
  obtain st1 where l: "epoch_loop env dl [0..<epochs] st = Some st1"
    using epoch_loop_total [OF assms] by blast
  have c: "checkpoint_returns env k n" for k n
    using assms by (simp add: never_fails_def)
  obtain ema where ema:
    "(case ema_model st1 of
        None \<Rightarrow> Some None
      | Some e \<Rightarrow>
          map_option Some
            (ema_update (train_steps_current st1) (param_shapes st1) e (model_params st1)))
     = Some ema"
  proof (cases "ema_model st1")
    case None
    with that show ?thesis by simp
  next
    case (Some em)
    obtain r where
      "ema_update (train_steps_current st1) (param_shapes st1) em (model_params st1) = Some r"
      using ema_update_total by blast
    with Some that show ?thesis by simp
  qed
  show ?thesis
    by (simp add: training_def l c ema)
qed

text \<open>
  \<^bold>\<open>C7.\<close> The exponential moving average of the model. \<open>update_average old new\<close> is
  \<open>new\<close> when \<open>old\<close> is \<open>None\<close>, and otherwise the tensor \<open>old * beta + (1 - beta) * new\<close>:
  for tensors of one shape, entry by entry. In the loop, at the training steps divisible
  by \<open>update_ema_every\<close>, every entry of the averaged model becomes
  \<open>old * ema_decay + (1 - ema_decay) * new\<close>, where \<open>new\<close> is the model's entry after the
  optimizer step and \<open>old\<close> the averaged model's entry, or the model's own entry when
  the step is below \<open>step_start_ema\<close> (the reset); at the other steps the averaged model
  stays. The training takes the steps of the processed batches, one after the other, and
  then updates the averaged model once more in the same way. (The entries are reals.)
\<close>

theorem ema_schedule:
  "update_average beta None new = Some new
   \<and> (tshape old = tshape new \<and> length (tdata old) = prod_list (tshape old)
        \<and> length (tdata new) = prod_list (tshape new) \<longrightarrow>
        update_average beta (Some old) new
          = Some \<lparr>tshape = tshape old,
                  tdata = map2 (\<lambda>a b. a * beta + (1 - beta) * b) (tdata old) (tdata new)\<rparr>)
   \<and> (\<forall>st'. train_step env epoch batch st = Some st' \<and> ema_model st = Some e
          \<and> params_ok (param_shapes st) e \<and> params_ok (param_shapes st) (model_params st') \<longrightarrow>
        ema_model st' =
          Some (if train_steps_current st mod update_ema_every = 0
                then average_rule ema_decay
                       (if train_steps_current st < step_start_ema then model_params st' else e)
                       (model_params st')
                else e))
   \<and> (\<forall>stf. training env train_dataloader st0 = Some stf \<and> keeps_lengths env
          \<and> state_form st0 \<longrightarrow>
        (\<exists>st e'. for_loop (\<lambda>(epoch, batch). train_step env epoch batch)
                    (processed train_dataloader) st0 = Some st
           \<and> train_steps_current st
               = train_steps_current st0 + length (processed train_dataloader)
           \<and> ema_model st = Some e'
           \<and> stf = st\<lparr>ema_model :=
               Some (average_rule ema_decay
                       (if train_steps_current st < step_start_ema then model_params st else e')
                       (model_params st))\<rparr>))"
proof -
  have a: "update_average beta None new = Some new"
    by (simp add: update_average_def)
  have b: "update_average beta (Some old) new
          = Some \<lparr>tshape = tshape old,
                  tdata = map2 (\<lambda>a b. a * beta + (1 - beta) * b) (tdata old) (tdata new)\<rparr>"
    if "tshape old = tshape new" "length (tdata old) = prod_list (tshape old)"
      "length (tdata new) = prod_list (tshape new)"
    using tensor_map2_same [OF that] by (simp add: update_average_def)
  have c: "ema_model st' =
          Some (if train_steps_current st mod update_ema_every = 0
                then average_rule ema_decay
                       (if train_steps_current st < step_start_ema then model_params st' else e)
                       (model_params st')
                else e)"
    if "train_step env epoch batch st = Some st'" "ema_model st = Some e"
      "params_ok (param_shapes st) e" "params_ok (param_shapes st) (model_params st')" for st'
    by (rule train_step_ema [OF that])
  have d: "\<exists>st e'. for_loop (\<lambda>(epoch, batch). train_step env epoch batch)
                    (processed train_dataloader) st0 = Some st
           \<and> train_steps_current st
               = train_steps_current st0 + length (processed train_dataloader)
           \<and> ema_model st = Some e'
           \<and> stf = st\<lparr>ema_model :=
               Some (average_rule ema_decay
                       (if train_steps_current st < step_start_ema then model_params st else e')
                       (model_params st))\<rparr>"
    if "training env train_dataloader st0 = Some stf" "keeps_lengths env" "state_form st0" for stf
    by (rule training_flat [OF that])
  show ?thesis
    using a b c d by blast
qed


lemma toy_keeps_lengths: "keeps_lengths toy_train_env"
  by (auto simp: keeps_lengths_def toy_train_env_def list_all2_conv_all_nth)

lemma toy_start_form: "state_form toy_start"
  by (simp add: state_form_def toy_start_def params_ok_def)

lemma toy_processed: "length (processed (\<lambda>e. [1, 2, 3 :: real])) = 600"
  by (simp add: processed_def length_concat comp_def epochs_def sum_list_triv)

lemma toy_later_step:
  "\<exists>st'. train_step toy_train_env 3 0 toy_later = Some st'
     \<and> model_params st' = [[1, 2], [3]]"
proof -
  obtain st' where s: "train_step toy_train_env 3 0 toy_later = Some st'"
    using train_step_total [OF toy_never_fails] by blast
  have "model_params st' = [[1, 2], [3]]"
    using train_step_parts [OF s] by (auto simp: toy_train_env_def toy_later_def)
  with s show ?thesis by blast
qed

theorem ema_schedule_witness:
  "update_average (1 / 2) (Some tensor_2) tensor_2b = Some \<lparr>tshape = [2], tdata = [3, 6]\<rparr>
   \<and> (\<exists>st'. train_step toy_train_env 3 0 toy_later = Some st'
        \<and> ema_model st' = Some [[1 / 200, 1 / 100], [3 / 200]])
   \<and> keeps_lengths toy_train_env \<and> state_form toy_start
   \<and> (\<exists>stf st e'. training toy_train_env (\<lambda>e. [1, 2, 3]) toy_start = Some stf
        \<and> for_loop (\<lambda>(epoch, batch). train_step toy_train_env epoch batch)
             (processed (\<lambda>e. [1, 2, 3])) toy_start = Some st
        \<and> train_steps_current st = 600
        \<and> ema_model st = Some e'
        \<and> stf = st\<lparr>ema_model :=
            Some (average_rule ema_decay
                    (if train_steps_current st < step_start_ema then model_params st else e')
                    (model_params st))\<rparr>)"
proof -
  note inst = ema_schedule [of "1 / 2" tensor_2b tensor_2 toy_train_env 3 0 toy_later
      "[[0, 0], [0]]" "\<lambda>e. [1, 2, 3]" toy_start]
  have a: "update_average (1 / 2) (Some tensor_2) tensor_2b = Some \<lparr>tshape = [2], tdata = [3, 6]\<rparr>"
    using inst by (simp add: tensor_2_def tensor_2b_def)
  obtain st' where s: "train_step toy_train_env 3 0 toy_later = Some st'"
    "model_params st' = [[1, 2], [3]]"
    using toy_later_step by blast
  have "ema_model st' =
          Some (if train_steps_current toy_later mod update_ema_every = 0
                then average_rule ema_decay
                       (if train_steps_current toy_later < step_start_ema
                        then model_params st' else [[0, 0], [0]])
                       (model_params st')
                else [[0, 0], [0]])"
    using inst s by (simp add: toy_later_def params_ok_def)
  then have b: "ema_model st' = Some [[1 / 200, 1 / 100], [3 / 200]]"
    by (simp add: s(2) toy_later_def update_ema_every_def step_start_ema_def
          average_rule_def ema_decay_def)
  obtain stf where f: "training toy_train_env (\<lambda>e. [1, 2, 3]) toy_start = Some stf"
    using training_total [OF toy_never_fails] by blast
  have c: "\<exists>st e'. for_loop (\<lambda>(epoch, batch). train_step toy_train_env epoch batch)
             (processed (\<lambda>e. [1, 2, 3])) toy_start = Some st
        \<and> train_steps_current st
            = train_steps_current toy_start + length (processed (\<lambda>e. [1, 2, 3 :: real]))
        \<and> ema_model st = Some e'
        \<and> stf = st\<lparr>ema_model :=
            Some (average_rule ema_decay
                    (if train_steps_current st < step_start_ema then model_params st else e')
                    (model_params st))\<rparr>"
    using inst f toy_keeps_lengths toy_start_form by blast
  have z: "train_steps_current toy_start + length (processed (\<lambda>e. [1, 2, 3 :: real])) = 600"
    by (simp add: toy_processed toy_start_def)
  show ?thesis
    using a s(1) b toy_keeps_lengths toy_start_form f c unfolding z by blast
qed

end
